theory Spec2Isabelle
  imports Main
begin

section \<open>Data model of controller/api/api.go\<close>

text \<open>
  The gateway is glue between Go's standard library, gorilla/mux, oxy/forward and the
  Docker client. Every call that leaves the file (marshalling, HTTP requests, dialing,
  URL parsing) is answered by a \<open>world\<close> record, so that each error branch of the
  source is a branch of the model, and every call the source makes on a collaborator
  is recorded, in program order, as an \<open>event\<close>.
\<close>

datatype error = Err string

datatype tls_config = TLS string

text \<open>The fields of \<open>a.manager.DockerClient()\<close> that the file reads.\<close>

record DockerClient =
  URL_Scheme :: string
  URL_Host :: string
  TLSConfig :: "tls_config option"

record Api =
  listenAddr :: string
  DockerClient :: DockerClient
  enableCors :: bool

text \<open>\<open>dockerclient.ExecConfig\<close>, with the fields the file sets; the others keep Go's zero value.\<close>

record ExecConfig =
  AttachStdin :: bool
  AttachStdout :: bool
  AttachStderr :: bool
  Tty :: bool
  Cmd :: "string list"
  Detach :: bool

definition ExecConfig_zero :: ExecConfig where
  "ExecConfig_zero =
     \<lparr>AttachStdin = False, AttachStdout = False, AttachStderr = False, Tty = False,
      Cmd = [], Detach = False\<rparr>"

text \<open>
  An \<open>*http.Request\<close>. \<open>URL\<close> is the path a router matches on; \<open>RequestURI\<close> is the target
  as the client sent it (empty in a request the gateway builds itself), which stays in
  the request when \<open>swarmRedirect\<close> overwrites \<open>URL\<close>.
\<close>

record Request =
  Method :: string
  URL :: string
  RequestURI :: string
  Host :: string
  Header :: "(string \<times> string) list"
  ReqBody :: string

text \<open>An \<open>*http.Response\<close>: its status and what \<open>ioutil.ReadAll(resp.Body)\<close> gives.\<close>

record Response =
  StatusCode :: nat
  Body :: "error + string"

text \<open>
  \<open>net.Dial("tcp", _)\<close> returns a \<open>*net.TCPConn\<close>, \<open>tls.Dial\<close> a \<open>*tls.Conn\<close>; the type
  assertion \<open>dial.(*net.TCPConn)\<close> of \<open>hijack\<close> tells them apart.
\<close>

datatype conn = TCPConn string | TLSConn string tls_config

datatype roundtripper = DefaultTransport | Transport tls_config

datatype forwarder = Forwarder roundtripper

datatype endpoint = Br | Rwc | In | Stdout

text \<open>The statements of a goroutine's body, each blocking until it is done.\<close>

datatype action = IoCopy endpoint endpoint | CloseWrite | PrintlnForever

datatype event =
    HttpPost string string "string option"
  | NetDial string string
  | TlsDial string string tls_config
  | SetKeepAlive bool
  | SetKeepAlivePeriod int
  | NewClientConn conn
  | ClientConnDo Request
  | ClientConnHijack
  | ChanSend
  | Go "action list"
  | RwcClose
  | ClientConnClose
  | HeaderAdd string string
  | HeaderSet string string
  | WriteHeader nat
  | Write string
  | FwdServeHTTP forwarder Request

text \<open>A call either returns or blocks for ever (a receive on a nil channel).\<close>

datatype 'a outcome = Returns 'a | Blocks

record world =
  json_Marshal :: "ExecConfig \<Rightarrow> error + string"
  http_Post :: "string \<Rightarrow> string \<Rightarrow> string option \<Rightarrow> error + Response"
  json_Unmarshal_Id :: "string \<Rightarrow> error option \<times> string"
  http_NewRequest :: "string \<Rightarrow> string \<Rightarrow> string \<Rightarrow> error option"
  net_Dial :: "string \<Rightarrow> string \<Rightarrow> error option"
  tls_Dial :: "string \<Rightarrow> string \<Rightarrow> tls_config \<Rightarrow> error option"
  tls_has_CloseWrite :: bool
  url_ParseRequestURI :: "string \<Rightarrow> error + string"
  forward_New :: "roundtripper option \<Rightarrow> error option"
  cleanPath :: "string \<Rightarrow> string"

text \<open>\<open>time.Second\<close> as a \<open>time.Duration\<close> (nanoseconds).\<close>

definition time_Second :: int where
  "time_Second = 1000000000"

section \<open>The terminal bridge and the hijack engine\<close>

text \<open>\<open>url.Values.Get\<close>: the first value of the key, or the empty string.\<close>

definition Values_Get :: "(string \<rightharpoonup> string list) \<Rightarrow> string \<Rightarrow> string" where
  "Values_Get v key = (case v key of None \<Rightarrow> [] | Some [] \<Rightarrow> [] | Some (x # _) \<Rightarrow> x)"

text \<open>
  \<open>strings.Split(s, sep)\<close> for a separator of one byte, as \<open>execContainer\<close> calls it
  with \<open>","\<close>: one more piece than there are separators, the empty string gives one
  empty piece.
\<close>

fun strings_Split :: "string \<Rightarrow> char \<Rightarrow> string list" where
  "strings_Split [] sep = [[]]"
| "strings_Split (c # cs) sep =
     (if c = sep then [] # strings_Split cs sep
      else (case strings_Split cs sep of
              [] \<Rightarrow> [[c]]
            | w # ws \<Rightarrow> (c # w) # ws))"

text \<open>\<open>strings.Join\<close>, to say what \<open>strings_Split\<close> computes.\<close>

fun strings_Join :: "string list \<Rightarrow> char \<Rightarrow> string" where
  "strings_Join [] sep = []"
| "strings_Join [w] sep = w"
| "strings_Join (w # v # ws) sep = w @ sep # strings_Join (v # ws) sep"

definition has_CloseWrite :: "world \<Rightarrow> conn \<Rightarrow> bool" where
  "has_CloseWrite W c = (case c of TCPConn _ \<Rightarrow> True | TLSConn _ _ \<Rightarrow> tls_has_CloseWrite W)"

text \<open>
  \<open>Api.hijack\<close>. The result is what the calling goroutine does: whether it returns
  (and the error) or blocks, and its calls in order. The two deferred closes run when
  the function returns after they were registered, last registered first. The channel
  \<open>receiveStdout\<close> is declared and never made, so it is nil when it is received from.
\<close>

definition hijack ::
  "world \<Rightarrow> Api \<Rightarrow> string \<Rightarrow> string \<Rightarrow> string \<Rightarrow> bool \<Rightarrow> endpoint option \<Rightarrow>
     endpoint option \<Rightarrow> endpoint option \<Rightarrow> bool \<Rightarrow> error option outcome \<times> event list" where
  "hijack W a addr method path setRawTerminal inp stdout stderr started =
    (let execConfig = ExecConfig_zero\<lparr>Tty := True, Detach := False\<rparr> in
     case json_Marshal W execConfig of
       Inl e \<Rightarrow> (Returns (Some e), [])
     | Inr buf \<Rightarrow>
        (case http_NewRequest W method path buf of
           Some e \<Rightarrow> (Returns (Some e), [])
         | None \<Rightarrow>
            (let err = (None :: error option);
                 req = \<lparr>Method = method, URL = path, RequestURI = [], Host = addr,
                        Header = [(''User-Agent'', ''Docker-Client''),
                                  (''Content-Type'', ''text/plain''),
                                  (''Connection'', ''Upgrade''),
                                  (''Upgrade'', ''tcp'')],
                        ReqBody = buf\<rparr>;
                 tlsConfig = TLSConfig (DockerClient a);
                 dial = (case tlsConfig of
                           None \<Rightarrow> TCPConn addr
                         | Some c \<Rightarrow> TLSConn addr c);
                 dialErr = (case tlsConfig of
                              None \<Rightarrow> net_Dial W ''tcp'' addr
                            | Some c \<Rightarrow> tls_Dial W ''tcp'' addr c);
                 dialed = (case tlsConfig of
                             None \<Rightarrow> [NetDial ''tcp'' addr]
                           | Some c \<Rightarrow> [TlsDial ''tcp'' addr c])
             in case dialErr of
                  Some e \<Rightarrow> (Returns (Some e), dialed)
                | None \<Rightarrow>
                   (let keepalive =
                          (case dial of
                             TCPConn _ \<Rightarrow>
                               [SetKeepAlive True, SetKeepAlivePeriod (30 * time_Second)]
                           | TLSConn _ _ \<Rightarrow> [])
                    in case err of
                         Some e \<Rightarrow> (Returns (Some e), dialed @ keepalive)
                       | None \<Rightarrow>
                          (let rwc = dial;
                               setup = dialed @ keepalive @
                                 [NewClientConn dial, ClientConnDo req, ClientConnHijack] @
                                 (if started then [ChanSend] else []);
                               copyOut =
                                 (if stdout \<noteq> None \<or> stderr \<noteq> None
                                  then [Go (if setRawTerminal \<and> stdout \<noteq> None
                                            then [IoCopy Stdout Br] else [])]
                                  else []);
                               copyIn =
                                 [Go ((if inp \<noteq> None then [IoCopy Rwc In] else []) @
                                      (if has_CloseWrite W rwc then [CloseWrite] else []))]
                           in if stdout \<noteq> None \<or> stderr \<noteq> None
                              then (Blocks, setup @ copyOut @ copyIn)
                              else (Returns None,
                                    setup @ copyOut @ copyIn @ [Go [PrintlnForever]] @
                                    [RwcClose, ClientConnClose]))))))"

text \<open>
  \<open>Api.execContainer\<close>, for the query of the websocket request. The websocket is the
  input, the output and the error stream of the hijack; \<open>started\<close> is nil. Logging is
  left out. The status of the first response is never read, and the error of
  \<open>json.Unmarshal\<close> is dropped: \<open>info.Id\<close> is whatever the decoder left.
\<close>

definition execContainer ::
  "world \<Rightarrow> Api \<Rightarrow> (string \<rightharpoonup> string list) \<Rightarrow> unit outcome \<times> event list" where
  "execContainer W a qry =
    (let containerId = Values_Get qry ''id'';
         command = Values_Get qry ''cmd'';
         ttyWidth = Values_Get qry ''w'';
         ttyHeight = Values_Get qry ''h'';
         cmd = strings_Split command (CHR '','');
         clientUrl = DockerClient a;
         host = URL_Scheme clientUrl @ ''://'' @ URL_Host clientUrl;
         execConfig = ExecConfig_zero\<lparr>AttachStdin := True, AttachStdout := True,
                        AttachStderr := True, Tty := True, Cmd := cmd\<rparr>
     in case json_Marshal W execConfig of
          Inl e \<Rightarrow> (Returns (), [])
        | Inr buf \<Rightarrow>
           (let u = host @ ''/containers/'' @ containerId @ ''/exec'';
                posted = [HttpPost u ''application/json'' (Some buf)]
            in case http_Post W u ''application/json'' (Some buf) of
                 Inl e \<Rightarrow> (Returns (), posted)
               | Inr resp \<Rightarrow>
                  (case Body resp of
                     Inl e \<Rightarrow> (Returns (), posted)
                   | Inr data \<Rightarrow>
                      (let info_Id = snd (json_Unmarshal_Id W data) in
                       case hijack W a (URL_Host clientUrl) ''POST''
                              (''/exec/'' @ info_Id @ ''/start'') True
                              (Some In) (Some Stdout) (Some Stdout) False of
                         (Blocks, tr) \<Rightarrow> (Blocks, posted @ tr)
                       | (Returns (Some e), tr) \<Rightarrow> (Returns (), posted @ tr)
                       | (Returns None, tr) \<Rightarrow>
                          (let u' = host @ ''/exec/'' @ info_Id @ ''/resize?w='' @ ttyWidth @
                                    ''&h='' @ ttyHeight
                           in (Returns (), posted @ tr @ [HttpPost u' ''application/json'' None]))))))"

section \<open>Transport selection and the forwarder (Api.Run)\<close>

datatype 'a startup = Started 'a | ReturnsError error | Fatal error

record transport =
  scheme :: string
  fwd :: forwarder

text \<open>
  The head of \<open>Api.Run\<close>: \<open>forward.New()\<close> gives a forwarder on the default round-tripper;
  with a TLS configuration the scheme becomes https and the forwarder is replaced by one
  on \<open>&http.Transport{TLSClientConfig: client.TLSConfig}\<close>. \<open>forward_New\<close> of the world
  says whether the constructor fails.
\<close>

definition Run_transport :: "world \<Rightarrow> DockerClient \<Rightarrow> transport startup" where
  "Run_transport W client =
     (case forward_New W None of
        Some e \<Rightarrow> ReturnsError e
      | None \<Rightarrow>
         (case TLSConfig client of
            None \<Rightarrow> Started \<lparr>scheme = ''http://'', fwd = Forwarder DefaultTransport\<rparr>
          | Some cfg \<Rightarrow>
             (let r = Transport cfg in
              case forward_New W (Some r) of
                Some e \<Rightarrow> Fatal e
              | None \<Rightarrow> Started \<lparr>scheme = ''https://'', fwd = Forwarder r\<rparr>)))"

definition Run_dUrl :: "transport \<Rightarrow> DockerClient \<Rightarrow> string" where
  "Run_dUrl t client = scheme t @ URL_Host client"

type_synonym HandlerFunc = "Request \<Rightarrow> event list"

fun error_Error :: "error \<Rightarrow> string" where
  "error_Error (Err msg) = msg"

definition http_StatusInternalServerError :: nat where
  "http_StatusInternalServerError = 500"

text \<open>\<open>http.Error\<close>: the content type, the status line, the message and a newline.\<close>

definition http_Error :: "string \<Rightarrow> nat \<Rightarrow> event list" where
  "http_Error msg code =
     [HeaderSet ''Content-Type'' ''text/plain; charset=utf-8'', WriteHeader code,
      Write (msg @ [CHR 0x0A])]"

text \<open>The closure \<open>swarmRedirect\<close> over \<open>dUrl\<close> and \<open>fwd\<close>, which \<open>Run\<close> computed before.\<close>

definition swarmRedirect :: "world \<Rightarrow> string \<Rightarrow> forwarder \<Rightarrow> HandlerFunc" where
  "swarmRedirect W dUrl f req =
     (case url_ParseRequestURI W dUrl of
        Inl err \<Rightarrow> http_Error (error_Error err) http_StatusInternalServerError
      | Inr u \<Rightarrow> [FwdServeHTTP f (req\<lparr>URL := u\<rparr>)])"

definition writeCorsHeaders :: "event list" where
  "writeCorsHeaders =
     [HeaderAdd ''Access-Control-Allow-Origin'' ''*'',
      HeaderAdd ''Access-Control-Allow-Headers''
        ''Origin, X-Requested-With, Content-Type, Accept'',
      HeaderAdd ''Access-Control-Allow-Methods'' ''GET, POST, DELETE, PUT, OPTIONS'']"

text \<open>The closure \<open>wrap\<close> of the registration loop.\<close>

definition wrap :: "Api \<Rightarrow> HandlerFunc \<Rightarrow> HandlerFunc" where
  "wrap a localFct r = (if enableCors a then writeCorsHeaders else []) @ localFct r"

text \<open>
  The response headers after a run of calls on \<open>w.Header()\<close>: \<open>Add\<close> appends a value to
  the key's list, \<open>Set\<close> replaces the list.
\<close>

fun headers_after :: "event list \<Rightarrow> (string \<times> string list) list \<Rightarrow> (string \<times> string list) list" where
  "headers_after [] hs = hs"
| "headers_after (HeaderAdd k v # es) hs =
     headers_after es
       (case map_of hs k of
          None \<Rightarrow> hs @ [(k, [v])]
        | Some vs \<Rightarrow> map (\<lambda>(k', vs'). if k' = k then (k', vs' @ [v]) else (k', vs')) hs)"
| "headers_after (HeaderSet k v # es) hs =
     headers_after es (filter (\<lambda>(k', vs'). k' \<noteq> k) hs @ [(k, [v])])"
| "headers_after (e # es) hs = headers_after es hs"

section \<open>The swarm route table (Api.Run)\<close>

text \<open>
  The map \<open>m\<close>, method by method. Every handler in it is \<open>swarmRedirect\<close>. Go ranges
  over a map in no fixed order, so the loop below takes the entries as a list in the
  order the range happened to produce.
\<close>

definition GET_routes :: "string list" where
  "GET_routes =
     [''/_ping'', ''/events'', ''/info'', ''/version'', ''/images/json'', ''/images/viz'',
      ''/images/search'', ''/images/get'', ''/images/{name:.*}/get'',
      ''/images/{name:.*}/history'', ''/images/{name:.*}/json'', ''/containers/ps'',
      ''/containers/json'', ''/containers/{name:.*}/export'',
      ''/containers/{name:.*}/changes'', ''/containers/{name:.*}/json'',
      ''/containers/{name:.*}/top'', ''/containers/{name:.*}/logs'',
      ''/containers/{name:.*}/stats'', ''/containers/{name:.*}/attach/ws'',
      ''/exec/{execid:.*}/json'']"

definition POST_routes :: "string list" where
  "POST_routes =
     [''/auth'', ''/commit'', ''/build'', ''/images/create'', ''/images/load'',
      ''/images/{name:.*}/push'', ''/images/{name:.*}/tag'', ''/containers/create'',
      ''/containers/{name:.*}/kill'', ''/containers/{name:.*}/pause'',
      ''/containers/{name:.*}/unpause'', ''/containers/{name:.*}/rename'',
      ''/containers/{name:.*}/restart'', ''/containers/{name:.*}/start'',
      ''/containers/{name:.*}/stop'', ''/containers/{name:.*}/wait'',
      ''/containers/{name:.*}/resize'', ''/containers/{name:.*}/attach'',
      ''/containers/{name:.*}/copy'', ''/containers/{name:.*}/exec'',
      ''/exec/{execid:.*}/start'', ''/exec/{execid:.*}/resize'']"

definition DELETE_routes :: "string list" where
  "DELETE_routes = [''/containers/{name:.*}'', ''/images/{name:.*}'']"

definition OPTIONS_routes :: "string list" where
  "OPTIONS_routes = [[]]"

definition swarm_m :: "HandlerFunc \<Rightarrow> (string \<times> string \<times> HandlerFunc) list" where
  "swarm_m sr =
     map (\<lambda>route. (''GET'', route, sr)) GET_routes @
     map (\<lambda>route. (''POST'', route, sr)) POST_routes @
     map (\<lambda>route. (''DELETE'', route, sr)) DELETE_routes @
     map (\<lambda>route. (''OPTIONS'', route, sr)) OPTIONS_routes"

record Route =
  Path :: string
  Methods :: "string list"
  HandlerFunc :: HandlerFunc

text \<open>The registration loop: the version-prefixed route first, then the bare one.\<close>

fun register_routes :: "Api \<Rightarrow> (string \<times> string \<times> HandlerFunc) list \<Rightarrow> Route list" where
  "register_routes a [] = []"
| "register_routes a ((method, route, fct) # es) =
     \<lparr>Path = ''/v{version:[0-9.]+}'' @ route, Methods = [method], HandlerFunc = wrap a fct\<rparr> #
     \<lparr>Path = route, Methods = [method], HandlerFunc = wrap a fct\<rparr> #
     register_routes a es"

subsection \<open>gorilla/mux: path templates and the first matching route\<close>

text \<open>
  A template is literal text with variables \<open>{name:pattern}\<close>; mux compiles it to the
  regular expression \<open>^...$\<close> with the literals quoted and each variable a group of its
  pattern (\<open>[^/]+\<close> when none is given). The table uses two patterns, \<open>.*\<close> and
  \<open>[0-9.]+\<close>, and no nested braces; any other pattern is \<open>Unsupported\<close> here and matches
  nothing. A variable is a character class and the least number of repetitions.
\<close>

datatype cls = AnyChar | VersionChar | NotSlash

datatype seg = Ch char | Var string cls nat | Unsupported

definition in_cls :: "cls \<Rightarrow> char \<Rightarrow> bool" where
  "in_cls k c =
     (case k of
        AnyChar \<Rightarrow> c \<noteq> CHR 0x0A
      | VersionChar \<Rightarrow> c \<in> set ''0123456789.''
      | NotSlash \<Rightarrow> c \<noteq> CHR ''/'')"

definition mk_var :: "string \<Rightarrow> seg" where
  "mk_var body =
     (let name = takeWhile (\<lambda>c. c \<noteq> CHR '':'') body;
          patt = drop 1 (dropWhile (\<lambda>c. c \<noteq> CHR '':'') body)
      in if CHR '':'' \<notin> set body then Var name NotSlash 1
         else if patt = ''.*'' then Var name AnyChar 0
         else if patt = ''[0-9.]+'' then Var name VersionChar 1
         else Unsupported)"

text \<open>The second argument holds the text since an open brace, if one is open.\<close>

fun parse_template :: "string \<Rightarrow> string option \<Rightarrow> seg list" where
  "parse_template [] None = []"
| "parse_template [] (Some body) = [Unsupported]"
| "parse_template (c # cs) None =
     (if c = CHR ''{'' then parse_template cs (Some [])
      else Ch c # parse_template cs None)"
| "parse_template (c # cs) (Some body) =
     (if c = CHR ''}'' then mk_var body # parse_template cs None
      else parse_template cs (Some (body @ [c])))"

fun path_match :: "seg list \<Rightarrow> string \<Rightarrow> bool" where
  "path_match [] s = (s = [])"
| "path_match (Ch c # ts) s = (case s of [] \<Rightarrow> False | x # xs \<Rightarrow> x = c \<and> path_match ts xs)"
| "path_match (Var n k least # ts) s =
     list_ex (\<lambda>i. least \<le> i \<and> list_all (in_cls k) (take i s) \<and> path_match ts (drop i s))
       [0..<Suc (length s)]"
| "path_match (Unsupported # ts) s = False"

definition Route_Match :: "Route \<Rightarrow> Request \<Rightarrow> bool" where
  "Route_Match r req =
     (path_match (parse_template (Path r) None) (URL req) \<and> Method req \<in> set (Methods r))"

fun Router_Match :: "Route list \<Rightarrow> Request \<Rightarrow> HandlerFunc option" where
  "Router_Match [] req = None"
| "Router_Match (r # rs) req =
     (if Route_Match r req then Some (HandlerFunc r) else Router_Match rs req)"

section \<open>The top-level mux (Api.Run)\<close>

datatype mounted =
    FileServer
  | apiAuthRouter
  | accountAuthRouter
  | loginRouter
  | hubRouter
  | swarmAuthRouter
  | RedirectHandler string
  | NotFoundHandler

record muxEntry =
  explicit :: bool
  h :: mounted
  pattern :: string

type_synonym ServeMux = "(string \<times> muxEntry) list"

fun mux_update :: "ServeMux \<Rightarrow> string \<Rightarrow> muxEntry \<Rightarrow> ServeMux" where
  "mux_update [] k e = [(k, e)]"
| "mux_update ((k', e') # m) k e =
     (if k' = k then (k, e) # m else (k', e') # mux_update m k e)"

text \<open>
  \<open>ServeMux.Handle\<close> of net/http: the entry, and for a pattern that ends in a slash an
  implicit redirect from the pattern without it, unless that one was registered.
\<close>

definition ServeMux_Handle :: "ServeMux \<Rightarrow> string \<Rightarrow> mounted \<Rightarrow> ServeMux" where
  "ServeMux_Handle mux pat handler =
     (let m1 = mux_update mux pat \<lparr>explicit = True, h = handler, pattern = pat\<rparr> in
      if pat \<noteq> [] \<and> last pat = CHR ''/'' \<and>
         \<not> (case map_of m1 (butlast pat) of None \<Rightarrow> False | Some e \<Rightarrow> explicit e)
      then mux_update m1 (butlast pat)
             \<lparr>explicit = False, h = RedirectHandler pat, pattern = pat\<rparr>
      else m1)"

definition pathMatch :: "string \<Rightarrow> string \<Rightarrow> bool" where
  "pathMatch pat path =
     (if pat = [] then False
      else if last pat \<noteq> CHR ''/'' then pat = path
      else length pat \<le> length path \<and> take (length pat) path = pat)"

text \<open>\<open>ServeMux.match\<close>: of the patterns that match, the longest.\<close>

fun ServeMux_match :: "ServeMux \<Rightarrow> string \<Rightarrow> (mounted \<times> nat) option \<Rightarrow> (mounted \<times> nat) option" where
  "ServeMux_match [] path best = best"
| "ServeMux_match ((k, v) # m) path best =
     (if \<not> pathMatch k path then ServeMux_match m path best
      else (case best of
              None \<Rightarrow> ServeMux_match m path (Some (h v, length k))
            | Some (h0, n) \<Rightarrow>
                if n < length k then ServeMux_match m path (Some (h v, length k))
                else ServeMux_match m path best))"

definition ServeMux_handler :: "ServeMux \<Rightarrow> string \<Rightarrow> mounted" where
  "ServeMux_handler mux path =
     (case ServeMux_match mux path None of None \<Rightarrow> NotFoundHandler | Some (h0, n) \<Rightarrow> h0)"

text \<open>\<open>ServeMux.Handler\<close>: a path that is not clean is answered by a redirect to the clean one.\<close>

definition ServeMux_Handler :: "world \<Rightarrow> ServeMux \<Rightarrow> string \<Rightarrow> string \<Rightarrow> mounted" where
  "ServeMux_Handler W mux method path =
     (if method \<noteq> ''CONNECT'' \<and> cleanPath W path \<noteq> path
      then RedirectHandler (cleanPath W path)
      else ServeMux_handler mux path)"

text \<open>The calls of \<open>globalMux.Handle\<close> in \<open>Api.Run\<close>, in order.\<close>

definition globalMux :: ServeMux where
  "globalMux =
     foldl (\<lambda>mux (pat, handler). ServeMux_Handle mux pat handler) []
       [(''/'', FileServer),
        (''/api/'', apiAuthRouter),
        (''/account/'', accountAuthRouter),
        (''/auth/'', loginRouter),
        (''/hub/'', hubRouter),
        (''/containers/'', swarmAuthRouter),
        (''/_ping'', swarmAuthRouter),
        (''/commit'', swarmAuthRouter),
        (''/build'', swarmAuthRouter),
        (''/events'', swarmAuthRouter),
        (''/version'', swarmAuthRouter),
        (''/images/'', swarmAuthRouter),
        (''/exec/'', swarmAuthRouter),
        (''/v1.17/'', swarmAuthRouter),
        (''/v1.18/'', swarmAuthRouter)]"

section \<open>Predicates of the statements\<close>

text \<open>
  The handshake of \<open>hijack\<close> succeeds: the start request is built and the dial to the
  cluster manager, plain or TLS as the client is configured, returns a connection.
\<close>

definition handshake_ok :: "world \<Rightarrow> Api \<Rightarrow> string \<Rightarrow> string \<Rightarrow> string \<Rightarrow> bool" where
  "handshake_ok W a addr method path =
     (case json_Marshal W (ExecConfig_zero\<lparr>Tty := True, Detach := False\<rparr>) of
        Inl e \<Rightarrow> False
      | Inr buf \<Rightarrow>
          http_NewRequest W method path buf = None \<and>
          (case TLSConfig (DockerClient a) of
             None \<Rightarrow> net_Dial W ''tcp'' addr
           | Some c \<Rightarrow> tls_Dial W ''tcp'' addr c) = None)"

fun is_dial :: "event \<Rightarrow> bool" where
  "is_dial (NetDial n addr) = True"
| "is_dial (TlsDial n addr c) = True"
| "is_dial e = False"

fun is_keepalive :: "event \<Rightarrow> bool" where
  "is_keepalive (SetKeepAlive b) = True"
| "is_keepalive (SetKeepAlivePeriod d) = True"
| "is_keepalive e = False"

fun is_forward :: "event \<Rightarrow> bool" where
  "is_forward (FwdServeHTTP f r) = True"
| "is_forward e = False"

text \<open>The configuration of the session request of \<open>execContainer\<close>.\<close>

definition session_config :: "(string \<rightharpoonup> string list) \<Rightarrow> ExecConfig" where
  "session_config qry =
     \<lparr>AttachStdin = True, AttachStdout = True, AttachStderr = True, Tty = True,
      Cmd = strings_Split (Values_Get qry ''cmd'') (CHR '',''), Detach = False\<rparr>"

definition session_url :: "Api \<Rightarrow> (string \<rightharpoonup> string list) \<Rightarrow> string" where
  "session_url a qry =
     URL_Scheme (DockerClient a) @ ''://'' @ URL_Host (DockerClient a) @
     ''/containers/'' @ Values_Get qry ''id'' @ ''/exec''"

section \<open>Concrete worlds\<close>

text \<open>
  Collaborators to run the model against: a cluster manager that answers every call,
  one whose answer to the session request is a 404 with a plain-text body, one whose
  answer is a 404 with a body that decodes to a session identifier, one that cannot be
  reached, and one whose endpoint does not parse. The encoder writes the fields in
  declaration order.
\<close>

definition json_bool :: "bool \<Rightarrow> string" where
  "json_bool b = (if b then ''true'' else ''false'')"

fun json_strings :: "string list \<Rightarrow> string" where
  "json_strings [] = []"
| "json_strings [w] = CHR 0x22 # w @ [CHR 0x22]"
| "json_strings (w # v # ws) = CHR 0x22 # w @ CHR 0x22 # CHR '','' # json_strings (v # ws)"

definition encode_ExecConfig :: "ExecConfig \<Rightarrow> string" where
  \<open>encode_ExecConfig c =
     ''{"AttachStdin":'' @ json_bool (AttachStdin c) @
     '',"AttachStdout":'' @ json_bool (AttachStdout c) @
     '',"AttachStderr":'' @ json_bool (AttachStderr c) @
     '',"Tty":'' @ json_bool (Tty c) @
     '',"Cmd":['' @ json_strings (Cmd c) @
     ''],"Detach":'' @ json_bool (Detach c) @ ''}''\<close>

definition id_body :: string where
  \<open>id_body = ''{"Id":"e1"}''\<close>

definition world_ok :: world where
  \<open>world_ok =
     \<lparr>json_Marshal = (\<lambda>c. Inr (encode_ExecConfig c)),
      http_Post = (\<lambda>u ct b. Inr \<lparr>StatusCode = 201, Body = Inr ''{"Id":"e1"}''\<rparr>),
      json_Unmarshal_Id =
        (\<lambda>d. if d = ''{"Id":"e1"}'' then (None, ''e1'')
             else (Some (Err ''invalid character''), [])),
      http_NewRequest = (\<lambda>m p b. None),
      net_Dial = (\<lambda>n addr. None),
      tls_Dial = (\<lambda>n addr c. None),
      tls_has_CloseWrite = False,
      url_ParseRequestURI = (\<lambda>u. Inr u),
      forward_New = (\<lambda>r. None),
      cleanPath = (\<lambda>p. p)\<rparr>\<close>

definition world_404 :: world where
  \<open>world_404 =
     world_ok\<lparr>http_Post :=
       (\<lambda>u ct b. Inr \<lparr>StatusCode = 404, Body = Inr ''No such container: abc123''\<rparr>)\<rparr>\<close>

definition world_404_id :: world where
  \<open>world_404_id =
     world_ok\<lparr>http_Post :=
       (\<lambda>u ct b. Inr \<lparr>StatusCode = 404, Body = Inr ''{"Id":"e1"}''\<rparr>)\<rparr>\<close>

definition world_unreachable :: world where
  "world_unreachable =
     world_ok\<lparr>http_Post := (\<lambda>u ct b. Inl (Err ''connection refused''))\<rparr>"

definition world_badurl :: world where
  "world_badurl =
     world_ok\<lparr>url_ParseRequestURI := (\<lambda>u. Inl (Err ''invalid URI for request''))\<rparr>"

definition api_plain :: Api where
  "api_plain =
     \<lparr>listenAddr = '':8080'',
      DockerClient = \<lparr>URL_Scheme = ''http'', URL_Host = ''swarm:2375'', TLSConfig = None\<rparr>,
      enableCors = True\<rparr>"

definition api_tls :: Api where
  "api_tls =
     \<lparr>listenAddr = '':8080'',
      DockerClient = \<lparr>URL_Scheme = ''https'', URL_Host = ''swarm:3376'',
                      TLSConfig = Some (TLS ''swarm-certs'')\<rparr>,
      enableCors = False\<rparr>"

definition req_images :: Request where
  "req_images =
     \<lparr>Method = ''GET'', URL = ''/images/json'', RequestURI = ''/images/json'',
      Host = ''shipyard:8080'', Header = [], ReqBody = []\<rparr>"

definition req_inspect :: Request where
  "req_inspect =
     \<lparr>Method = ''GET'', URL = ''/containers/abc123/json'',
      RequestURI = ''/containers/abc123/json'', Host = ''shipyard:8080'', Header = [],
      ReqBody = []\<rparr>"

definition qry_sh :: "string \<rightharpoonup> string list" where
  "qry_sh = [''id'' \<mapsto> [''abc123''], ''cmd'' \<mapsto> [''sh,-c,echo hi''],
             ''w'' \<mapsto> [''80''], ''h'' \<mapsto> [''24'']]"

section \<open>The terminal bridge and the hijack engine: proofs\<close>

text \<open>The four ways through \<open>hijack\<close>, as a rule for case analysis.\<close>

lemma hijack_ok_eq:
  assumes "json_Marshal W (ExecConfig_zero\<lparr>Tty := True, Detach := False\<rparr>) = Inr buf"
    and "handshake_ok W a addr method path"
  shows "hijack W a addr method path raw inp stdout stderr started =
             (if stdout \<noteq> None \<or> stderr \<noteq> None then Blocks else Returns None,
                (case TLSConfig (DockerClient a) of
                   None \<Rightarrow> [NetDial ''tcp'' addr, SetKeepAlive True,
                            SetKeepAlivePeriod (30 * time_Second), NewClientConn (TCPConn addr)]
                 | Some c \<Rightarrow> [TlsDial ''tcp'' addr c, NewClientConn (TLSConn addr c)]) @
                [ClientConnDo \<lparr>Method = method, URL = path, RequestURI = [], Host = addr,
                               Header = [(''User-Agent'', ''Docker-Client''),
                                         (''Content-Type'', ''text/plain''),
                                         (''Connection'', ''Upgrade''),
                                         (''Upgrade'', ''tcp'')],
                               ReqBody = buf\<rparr>,
                 ClientConnHijack] @
                (if started then [ChanSend] else []) @
                (if stdout \<noteq> None \<or> stderr \<noteq> None
                 then [Go (if raw \<and> stdout \<noteq> None then [IoCopy Stdout Br] else [])]
                 else []) @
                [Go ((if inp \<noteq> None then [IoCopy Rwc In] else []) @
                     (if has_CloseWrite W
                           (case TLSConfig (DockerClient a) of
                              None \<Rightarrow> TCPConn addr
                            | Some c \<Rightarrow> TLSConn addr c)
                      then [CloseWrite] else []))] @
                (if stdout \<noteq> None \<or> stderr \<noteq> None then []
                 else [Go [PrintlnForever], RwcClose, ClientConnClose]))"
proof -
  have n: "http_NewRequest W method path buf = None"
    and d: "(case TLSConfig (DockerClient a) of
               None \<Rightarrow> net_Dial W ''tcp'' addr
             | Some c \<Rightarrow> tls_Dial W ''tcp'' addr c) = None"
    using assms by (simp_all add: handshake_ok_def)
  show ?thesis
  proof (cases "TLSConfig (DockerClient a)")
    case None
    with d show ?thesis by (simp add: hijack_def Let_def assms(1) n)
  next
    case (Some c)
    with d show ?thesis by (simp add: hijack_def Let_def assms(1) n)
  qed
qed

lemma hijack_cases [case_names marshal request dial ok]:
  assumes "\<And>e. json_Marshal W (ExecConfig_zero\<lparr>Tty := True, Detach := False\<rparr>) = Inl e \<Longrightarrow>
             P (Returns (Some e), [])"
    and "\<And>buf e. json_Marshal W (ExecConfig_zero\<lparr>Tty := True, Detach := False\<rparr>) = Inr buf \<Longrightarrow>
             http_NewRequest W method path buf = Some e \<Longrightarrow> P (Returns (Some e), [])"
    and "\<And>buf e. json_Marshal W (ExecConfig_zero\<lparr>Tty := True, Detach := False\<rparr>) = Inr buf \<Longrightarrow>
             http_NewRequest W method path buf = None \<Longrightarrow>
             (case TLSConfig (DockerClient a) of
                None \<Rightarrow> net_Dial W ''tcp'' addr
              | Some c \<Rightarrow> tls_Dial W ''tcp'' addr c) = Some e \<Longrightarrow>
             P (Returns (Some e),
                case TLSConfig (DockerClient a) of
                  None \<Rightarrow> [NetDial ''tcp'' addr]
                | Some c \<Rightarrow> [TlsDial ''tcp'' addr c])"
    and "\<And>buf. json_Marshal W (ExecConfig_zero\<lparr>Tty := True, Detach := False\<rparr>) = Inr buf \<Longrightarrow>
             handshake_ok W a addr method path \<Longrightarrow>
             P (if stdout \<noteq> None \<or> stderr \<noteq> None then Blocks else Returns None,
                (case TLSConfig (DockerClient a) of
                   None \<Rightarrow> [NetDial ''tcp'' addr, SetKeepAlive True,
                            SetKeepAlivePeriod (30 * time_Second), NewClientConn (TCPConn addr)]
                 | Some c \<Rightarrow> [TlsDial ''tcp'' addr c, NewClientConn (TLSConn addr c)]) @
                [ClientConnDo \<lparr>Method = method, URL = path, RequestURI = [], Host = addr,
                               Header = [(''User-Agent'', ''Docker-Client''),
                                         (''Content-Type'', ''text/plain''),
                                         (''Connection'', ''Upgrade''),
                                         (''Upgrade'', ''tcp'')],
                               ReqBody = buf\<rparr>,
                 ClientConnHijack] @
                (if started then [ChanSend] else []) @
                (if stdout \<noteq> None \<or> stderr \<noteq> None
                 then [Go (if raw \<and> stdout \<noteq> None then [IoCopy Stdout Br] else [])]
                 else []) @
                [Go ((if inp \<noteq> None then [IoCopy Rwc In] else []) @
                     (if has_CloseWrite W
                           (case TLSConfig (DockerClient a) of
                              None \<Rightarrow> TCPConn addr
                            | Some c \<Rightarrow> TLSConn addr c)
                      then [CloseWrite] else []))] @
                (if stdout \<noteq> None \<or> stderr \<noteq> None then []
                 else [Go [PrintlnForever], RwcClose, ClientConnClose]))"
  shows "P (hijack W a addr method path raw inp stdout stderr started)"
proof (cases "json_Marshal W (ExecConfig_zero\<lparr>Tty := True, Detach := False\<rparr>)")
  case (Inl e)
  then have "hijack W a addr method path raw inp stdout stderr started = (Returns (Some e), [])"
    by (simp add: hijack_def)
  with assms(1)[OF Inl] show ?thesis by simp
next
  case (Inr buf)
  show ?thesis
  proof (cases "http_NewRequest W method path buf")
    case (Some e)
    then have "hijack W a addr method path raw inp stdout stderr started = (Returns (Some e), [])"
      by (simp add: hijack_def Inr)
    with assms(2)[OF Inr Some] show ?thesis by simp
  next
    case None
    show ?thesis
    proof (cases "TLSConfig (DockerClient a)")
      case tn: None
      show ?thesis
      proof (cases "net_Dial W ''tcp'' addr")
        case (Some e)
        then have "hijack W a addr method path raw inp stdout stderr started =
                     (Returns (Some e), [NetDial ''tcp'' addr])"
          by (simp add: hijack_def Let_def Inr None tn)
        with assms(3)[OF Inr None, of e] tn Some show ?thesis by simp
      next
        case dn: None
        have ok: "handshake_ok W a addr method path"
          by (simp add: handshake_ok_def Inr None tn dn)
        show ?thesis
          unfolding hijack_ok_eq[OF Inr ok] by (rule assms(4)[OF Inr ok])
      qed
    next
      case ts: (Some c)
      show ?thesis
      proof (cases "tls_Dial W ''tcp'' addr c")
        case (Some e)
        then have "hijack W a addr method path raw inp stdout stderr started =
                     (Returns (Some e), [TlsDial ''tcp'' addr c])"
          by (simp add: hijack_def Let_def Inr None ts)
        with assms(3)[OF Inr None, of e] ts Some show ?thesis by simp
      next
        case dn: None
        have ok: "handshake_ok W a addr method path"
          by (simp add: handshake_ok_def Inr None ts dn)
        show ?thesis
          unfolding hijack_ok_eq[OF Inr ok] by (rule assms(4)[OF Inr ok])
      qed
    qed
  qed
qed

lemma hijack_returns_nil:
  "fst (hijack W a addr method path raw inp stdout stderr started) = Returns None \<longrightarrow>
     stdout = None \<and> stderr = None"
  by (rule hijack_cases) simp_all

lemma hijack_no_post:
  "filter (\<lambda>e. e = HttpPost u ct b) (snd (hijack W a addr method path raw inp stdout stderr started)) = []"
  by (rule hijack_cases) (simp_all split: option.splits)

lemma hijack_dials:
  "filter is_dial (snd (hijack W a addr method path raw inp stdout stderr started)) \<in>
     {[], case TLSConfig (DockerClient a) of
            None \<Rightarrow> [NetDial ''tcp'' addr]
          | Some cfg \<Rightarrow> [TlsDial ''tcp'' addr cfg]}"
  by (rule hijack_cases) (simp_all split: option.splits)

lemma hijack_returns_nilD:
  "hijack W a addr method path raw inp stdout stderr started = (Returns None, tr) \<Longrightarrow>
     stdout = None \<and> stderr = None"
  using hijack_returns_nil[of W a addr "method" "path" raw inp stdout stderr started] by simp

lemma hijack_no_postD:
  "hijack W a addr method path raw inp stdout stderr started = (oc, tr) \<Longrightarrow>
     HttpPost u ct b \<notin> set tr"
  using hijack_no_post[of u ct b W a addr "method" "path" raw inp stdout stderr started]
  by (auto simp: filter_empty_conv)

lemma handshake_marshals:
  assumes "handshake_ok W a addr method path"
  obtains buf where "json_Marshal W (ExecConfig_zero\<lparr>Tty := True, Detach := False\<rparr>) = Inr buf"
  using assms by (auto simp: handshake_ok_def split: sum.splits)

lemma strings_Split_nonempty: "strings_Split s c \<noteq> []"
  by (induction s) (auto split: list.splits)

lemma strings_Join_Cons: "strings_Join ((x # w) # ws) c = x # strings_Join (w # ws) c"
  by (cases ws) simp_all

lemma strings_Join_sep: "strings_Join ([] # w # ws) c = c # strings_Join (w # ws) c"
  by simp

lemma strings_Join_Split: "strings_Join (strings_Split s c) c = s"
proof (induction s)
  case Nil
  show ?case by simp
next
  case (Cons x xs)
  then show ?case
    using strings_Split_nonempty[of xs c]
    by (cases "strings_Split xs c")
       (auto simp: strings_Join_Cons strings_Join_sep simp del: strings_Join.simps)
qed

lemma strings_Split_no_sep: "w \<in> set (strings_Split s c) \<Longrightarrow> c \<notin> set w"
  by (induction s arbitrary: w) (auto split: list.splits if_splits)

lemma session_config_unfold:
  "ExecConfig_zero\<lparr>AttachStdin := True, AttachStdout := True, AttachStderr := True,
      Tty := True, Cmd := strings_Split (Values_Get qry ''cmd'') (CHR '','')\<rparr> =
   session_config qry"
  by (simp add: ExecConfig_zero_def session_config_def)

lemma execContainer_unfold:
  "execContainer W a qry =
    (case json_Marshal W (session_config qry) of
       Inl e \<Rightarrow> (Returns (), [])
     | Inr buf \<Rightarrow>
        (case http_Post W (session_url a qry) ''application/json'' (Some buf) of
           Inl e \<Rightarrow> (Returns (), [HttpPost (session_url a qry) ''application/json'' (Some buf)])
         | Inr resp \<Rightarrow>
            (case Body resp of
               Inl e \<Rightarrow> (Returns (), [HttpPost (session_url a qry) ''application/json'' (Some buf)])
             | Inr data \<Rightarrow>
                (case hijack W a (URL_Host (DockerClient a)) ''POST''
                        (''/exec/'' @ snd (json_Unmarshal_Id W data) @ ''/start'') True
                        (Some In) (Some Stdout) (Some Stdout) False of
                   (Blocks, tr) \<Rightarrow>
                     (Blocks, HttpPost (session_url a qry) ''application/json'' (Some buf) # tr)
                 | (Returns (Some e), tr) \<Rightarrow>
                     (Returns (), HttpPost (session_url a qry) ''application/json'' (Some buf) # tr)
                 | (Returns None, tr) \<Rightarrow>
                     (Returns (),
                      HttpPost (session_url a qry) ''application/json'' (Some buf) # tr @
                      [HttpPost (URL_Scheme (DockerClient a) @ ''://'' @ URL_Host (DockerClient a) @
                                 ''/exec/'' @ snd (json_Unmarshal_Id W data) @ ''/resize?w='' @
                                 Values_Get qry ''w'' @ ''&h='' @ Values_Get qry ''h'')
                         ''application/json'' None])))))"
  unfolding execContainer_def Let_def session_config_unfold session_url_def
  by (simp split: sum.splits prod.splits outcome.splits option.splits)

lemma handshake_world_ok_plain:
  "handshake_ok world_ok api_plain ''swarm:2375'' ''POST'' ''/exec/e1/start''"
  by (simp add: handshake_ok_def world_ok_def api_plain_def)

lemma handshake_world_ok_tls:
  "handshake_ok world_ok api_tls ''swarm:3376'' ''POST'' ''/exec/e1/start''"
  by (simp add: handshake_ok_def world_ok_def api_tls_def)

text \<open>
  Claim C1. Once the handshake has succeeded and an output stream is given (as
  \<open>execContainer\<close> gives one), \<open>hijack\<close> never returns: it spawns the two copy goroutines
  and then receives from the nil channel \<open>receiveStdout\<close>. The deferred
  \<open>rwc.Close()\<close> and \<open>clientconn.Close()\<close> therefore never run, whatever the two ends of
  the duplex do; the goroutines it started only copy, and the input one half-closes
  with \<open>CloseWrite\<close> when its copy ends: none of them closes the socket. The socket is
  released zero times, not once.
\<close>
theorem hijack_blocks_and_never_closes:
  assumes "handshake_ok W a addr method path" and "stdout \<noteq> None \<or> stderr \<noteq> None"
  shows "fst (hijack W a addr method path raw inp stdout stderr started) = Blocks \<and>
         RwcClose \<notin> set (snd (hijack W a addr method path raw inp stdout stderr started)) \<and>
         ClientConnClose \<notin> set (snd (hijack W a addr method path raw inp stdout stderr started)) \<and>
         (\<forall>acts. Go acts \<in> set (snd (hijack W a addr method path raw inp stdout stderr started))
            \<longrightarrow> set acts \<subseteq> {IoCopy Stdout Br, IoCopy Rwc In, CloseWrite})"
proof -
  obtain buf where m: "json_Marshal W (ExecConfig_zero\<lparr>Tty := True, Detach := False\<rparr>) = Inr buf"
    using assms(1) by (rule handshake_marshals)
  show ?thesis
    using assms(2) by (auto simp: hijack_ok_eq[OF m assms(1)] split: option.splits)
qed

theorem hijack_blocks_and_never_closes_witness:
  "handshake_ok world_ok api_plain ''swarm:2375'' ''POST'' ''/exec/e1/start'' \<and>
   fst (hijack world_ok api_plain ''swarm:2375'' ''POST'' ''/exec/e1/start'' True
          (Some In) (Some Stdout) (Some Stdout) False) = Blocks \<and>
   RwcClose \<notin> set (snd (hijack world_ok api_plain ''swarm:2375'' ''POST'' ''/exec/e1/start'' True
          (Some In) (Some Stdout) (Some Stdout) False)) \<and>
   ClientConnClose \<notin> set (snd (hijack world_ok api_plain ''swarm:2375'' ''POST'' ''/exec/e1/start''
          True (Some In) (Some Stdout) (Some Stdout) False))"
proof -
  have s: "Some Stdout \<noteq> None \<or> Some Stdout \<noteq> None" by simp
  show ?thesis
    using hijack_blocks_and_never_closes[OF handshake_world_ok_plain s] handshake_world_ok_plain
    by blast
qed

text \<open>
  Claim C3. \<open>execContainer\<close> never issues the resize request (the only POST without a
  body): it stands after the call of \<open>hijack\<close>, which with the websocket as output
  either returns an error or blocks for ever, after it has started the copy from the
  remote side to the client.
\<close>
theorem execContainer_never_resizes:
  "HttpPost u ct None \<notin> set (snd (execContainer W a qry))"
  unfolding execContainer_unfold
  by (auto split: sum.splits prod.splits outcome.splits option.splits
           dest: hijack_returns_nilD hijack_no_postD)

lemma exec_world_ok_blocks: "fst (execContainer world_ok api_plain qry_sh) = Blocks"
  by (simp add: execContainer_def hijack_def Let_def world_ok_def api_plain_def qry_sh_def
        Values_Get_def ExecConfig_zero_def)

theorem execContainer_never_resizes_witness:
  "fst (execContainer world_ok api_plain qry_sh) = Blocks \<and>
   HttpPost ''http://swarm:2375/exec/e1/resize?w=80&h=24'' ''application/json'' None
     \<notin> set (snd (execContainer world_ok api_plain qry_sh))"
  using execContainer_never_resizes[of "''http://swarm:2375/exec/e1/resize?w=80&h=24''"
          "''application/json''" world_ok api_plain qry_sh] exec_world_ok_blocks
  by blast

text \<open>
  Claim C2, as amended. When the POST that creates the session fails, or its response
  body cannot be read, \<open>execContainer\<close> returns after that one request: no dial, no
  hijack. The status code of the response is never read: when the body is read and
  decodes, \<open>execContainer\<close> goes on to \<open>hijack\<close> for the decoded identifier, whatever
  the status, and its calls are the request followed by those of \<open>hijack\<close>.
\<close>

theorem execContainer_create_failure:
  assumes "json_Marshal W (session_config qry) = Inr buf"
  shows "((\<exists>e. http_Post W (session_url a qry) ''application/json'' (Some buf) = Inl e) \<or>
          (\<exists>resp e. http_Post W (session_url a qry) ''application/json'' (Some buf) = Inr resp \<and>
                     Body resp = Inl e) \<longrightarrow>
          execContainer W a qry =
            (Returns (), [HttpPost (session_url a qry) ''application/json'' (Some buf)])) \<and>
         (\<forall>resp data.
            http_Post W (session_url a qry) ''application/json'' (Some buf) = Inr resp \<and>
            Body resp = Inr data \<and> fst (json_Unmarshal_Id W data) = None \<longrightarrow>
            snd (execContainer W a qry) =
              HttpPost (session_url a qry) ''application/json'' (Some buf) #
              snd (hijack W a (URL_Host (DockerClient a)) ''POST''
                     (''/exec/'' @ snd (json_Unmarshal_Id W data) @ ''/start'') True
                     (Some In) (Some Stdout) (Some Stdout) False))"
proof -
  have 1: "execContainer W a qry =
             (Returns (), [HttpPost (session_url a qry) ''application/json'' (Some buf)])"
    if "(\<exists>e. http_Post W (session_url a qry) ''application/json'' (Some buf) = Inl e) \<or>
        (\<exists>resp e. http_Post W (session_url a qry) ''application/json'' (Some buf) = Inr resp \<and>
                   Body resp = Inl e)"
    using assms that unfolding execContainer_unfold by auto
  have 2: "snd (execContainer W a qry) =
             HttpPost (session_url a qry) ''application/json'' (Some buf) #
             snd (hijack W a (URL_Host (DockerClient a)) ''POST''
                    (''/exec/'' @ snd (json_Unmarshal_Id W data) @ ''/start'') True
                    (Some In) (Some Stdout) (Some Stdout) False)"
    if "http_Post W (session_url a qry) ''application/json'' (Some buf) = Inr resp"
      and "Body resp = Inr data" for resp data
    using assms that unfolding execContainer_unfold
    by (auto split: prod.splits outcome.splits option.splits dest: hijack_returns_nilD)
  from 1 2 show ?thesis by blast
qed

theorem execContainer_create_failure_witness:
  "execContainer world_unreachable api_plain qry_sh =
     (Returns (),
      [HttpPost (session_url api_plain qry_sh) ''application/json''
         (Some (encode_ExecConfig (session_config qry_sh)))]) \<and>
   snd (execContainer world_404_id api_plain qry_sh) =
     HttpPost (session_url api_plain qry_sh) ''application/json''
       (Some (encode_ExecConfig (session_config qry_sh))) #
     snd (hijack world_404_id api_plain ''swarm:2375'' ''POST'' ''/exec/e1/start'' True
            (Some In) (Some Stdout) (Some Stdout) False)"
proof -
  have m: "json_Marshal world_unreachable (session_config qry_sh) =
             Inr (encode_ExecConfig (session_config qry_sh))"
    by (simp add: world_unreachable_def world_ok_def)
  have f: "(\<exists>e. http_Post world_unreachable (session_url api_plain qry_sh) ''application/json''
                  (Some (encode_ExecConfig (session_config qry_sh))) = Inl e) \<or>
           (\<exists>resp e. http_Post world_unreachable (session_url api_plain qry_sh) ''application/json''
                  (Some (encode_ExecConfig (session_config qry_sh))) = Inr resp \<and>
                  Body resp = Inl e)"
    by (simp add: world_unreachable_def)
  have a: "execContainer world_unreachable api_plain qry_sh =
     (Returns (),
      [HttpPost (session_url api_plain qry_sh) ''application/json''
         (Some (encode_ExecConfig (session_config qry_sh)))])"
    using execContainer_create_failure[OF m, of api_plain] f by blast
  have m': "json_Marshal world_404_id (session_config qry_sh) =
             Inr (encode_ExecConfig (session_config qry_sh))"
    by (simp add: world_404_id_def world_ok_def id_body_def)
  have p: "http_Post world_404_id (session_url api_plain qry_sh) ''application/json''
             (Some (encode_ExecConfig (session_config qry_sh))) =
           Inr \<lparr>StatusCode = 404, Body = Inr id_body\<rparr> \<and>
           Body \<lparr>StatusCode = 404, Body = Inr id_body\<rparr> = Inr id_body \<and>
           fst (json_Unmarshal_Id world_404_id id_body) = None"
    by (simp add: world_404_id_def world_ok_def id_body_def)
  have i: "snd (json_Unmarshal_Id world_404_id id_body) = ''e1''"
    and h: "URL_Host (DockerClient api_plain) = ''swarm:2375''"
    by (simp_all add: world_404_id_def world_ok_def api_plain_def id_body_def)
  from execContainer_create_failure[OF m', of api_plain] p
  have "snd (execContainer world_404_id api_plain qry_sh) =
     HttpPost (session_url api_plain qry_sh) ''application/json''
       (Some (encode_ExecConfig (session_config qry_sh))) #
     snd (hijack world_404_id api_plain (URL_Host (DockerClient api_plain)) ''POST''
            (''/exec/'' @ snd (json_Unmarshal_Id world_404_id id_body) @ ''/start'') True
            (Some In) (Some Stdout) (Some Stdout) False)"
    by blast
  then have b: "snd (execContainer world_404_id api_plain qry_sh) =
     HttpPost (session_url api_plain qry_sh) ''application/json''
       (Some (encode_ExecConfig (session_config qry_sh))) #
     snd (hijack world_404_id api_plain ''swarm:2375'' ''POST'' ''/exec/e1/start'' True
            (Some In) (Some Stdout) (Some Stdout) False)"
    by (simp only: i h append.simps)
  from a b show ?thesis by (rule conjI)
qed

text \<open>
  Against claim C2 as stated: the cluster manager answers 404, a non-success status, with
  a body that decodes without error, and \<open>execContainer\<close> dials and hijacks all the same.
\<close>

theorem execContainer_404_status_ignored:
  "http_Post world_404_id (session_url api_plain qry_sh) ''application/json''
     (Some (encode_ExecConfig (session_config qry_sh))) =
     Inr \<lparr>StatusCode = 404, Body = Inr id_body\<rparr> \<and>
   json_Unmarshal_Id world_404_id id_body = (None, ''e1'') \<and>
   NetDial ''tcp'' ''swarm:2375'' \<in> set (snd (execContainer world_404_id api_plain qry_sh)) \<and>
   ClientConnHijack \<in> set (snd (execContainer world_404_id api_plain qry_sh))"
  by (simp add: execContainer_def hijack_def Let_def world_404_id_def world_ok_def api_plain_def
        qry_sh_def Values_Get_def ExecConfig_zero_def id_body_def)

text \<open>
  The error of \<open>json.Unmarshal\<close> is dropped: on a 404 with a plain-text body the decoder
  fails, and \<open>execContainer\<close> dials and hijacks with an empty session identifier.
\<close>

theorem execContainer_drops_decode_error:
  "http_Post world_404 (session_url api_plain qry_sh) ''application/json''
     (Some (encode_ExecConfig (session_config qry_sh))) =
     Inr \<lparr>StatusCode = 404, Body = Inr ''No such container: abc123''\<rparr> \<and>
   json_Unmarshal_Id world_404 ''No such container: abc123'' =
     (Some (Err ''invalid character''), []) \<and>
   NetDial ''tcp'' ''swarm:2375'' \<in> set (snd (execContainer world_404 api_plain qry_sh)) \<and>
   ClientConnHijack \<in> set (snd (execContainer world_404 api_plain qry_sh))"
  by (simp add: execContainer_def hijack_def Let_def world_404_def world_ok_def api_plain_def
        qry_sh_def Values_Get_def ExecConfig_zero_def)

lemma hijack_trace_plain:
  assumes "handshake_ok W a addr method path" and "TLSConfig (DockerClient a) = None"
  shows "\<exists>rest. snd (hijack W a addr method path raw inp stdout stderr started) =
               NetDial ''tcp'' addr # SetKeepAlive True #
               SetKeepAlivePeriod (30 * time_Second) # rest \<and>
               filter is_keepalive rest = []"
proof -
  obtain buf where m: "json_Marshal W (ExecConfig_zero\<lparr>Tty := True, Detach := False\<rparr>) = Inr buf"
    using assms(1) by (rule handshake_marshals)
  show ?thesis
    by (simp add: hijack_ok_eq[OF m assms(1)] assms(2))
qed

lemma hijack_trace_tls:
  assumes "handshake_ok W a addr method path" and "TLSConfig (DockerClient a) = Some c"
  shows "filter is_keepalive (snd (hijack W a addr method path raw inp stdout stderr started)) = []"
proof -
  obtain buf where m: "json_Marshal W (ExecConfig_zero\<lparr>Tty := True, Detach := False\<rparr>) = Inr buf"
    using assms(1) by (rule handshake_marshals)
  show ?thesis
    by (simp add: hijack_ok_eq[OF m assms(1)] assms(2))
qed

text \<open>
  Claim C5, as amended. After a successful handshake over plain TCP the calls
  \<open>SetKeepAlive(true)\<close> and \<open>SetKeepAlivePeriod(30 * time.Second)\<close> follow the dial at
  once, before the connection is handed on and before any goroutine copies; over TLS
  the connection is not a \<open>*net.TCPConn\<close> and \<open>hijack\<close> sets no keep-alive.
\<close>
theorem hijack_keepalive:
  assumes "handshake_ok W a addr method path"
  shows "(TLSConfig (DockerClient a) = None \<longrightarrow>
            (\<exists>rest. snd (hijack W a addr method path raw inp stdout stderr started) =
               NetDial ''tcp'' addr # SetKeepAlive True #
               SetKeepAlivePeriod (30 * time_Second) # rest \<and>
               filter is_keepalive rest = [])) \<and>
         (TLSConfig (DockerClient a) \<noteq> None \<longrightarrow>
            filter is_keepalive (snd (hijack W a addr method path raw inp stdout stderr started)) = [])"
  using hijack_trace_plain[OF assms] hijack_trace_tls[OF assms] by blast

theorem hijack_keepalive_witness:
  "handshake_ok world_ok api_plain ''swarm:2375'' ''POST'' ''/exec/e1/start'' \<and>
   (\<exists>rest. snd (hijack world_ok api_plain ''swarm:2375'' ''POST'' ''/exec/e1/start'' True
              (Some In) (Some Stdout) (Some Stdout) False) =
      NetDial ''tcp'' ''swarm:2375'' # SetKeepAlive True #
      SetKeepAlivePeriod (30 * time_Second) # rest \<and> filter is_keepalive rest = [])"
proof -
  have t: "TLSConfig (DockerClient api_plain) = None" by (simp add: api_plain_def)
  show ?thesis
    using hijack_keepalive[OF handshake_world_ok_plain] t handshake_world_ok_plain by blast
qed

text \<open>
  Against claim C5 as stated: with a TLS configuration the handshake succeeds, the
  connection is hijacked and the copy to the client is started, and no keep-alive call
  was made.
\<close>
theorem hijack_tls_sets_no_keepalive:
  "handshake_ok world_ok api_tls ''swarm:3376'' ''POST'' ''/exec/e1/start'' \<and>
   ClientConnHijack \<in> set (snd (hijack world_ok api_tls ''swarm:3376'' ''POST'' ''/exec/e1/start''
       True (Some In) (Some Stdout) (Some Stdout) False)) \<and>
   Go [IoCopy Stdout Br] \<in> set (snd (hijack world_ok api_tls ''swarm:3376'' ''POST''
       ''/exec/e1/start'' True (Some In) (Some Stdout) (Some Stdout) False)) \<and>
   filter is_keepalive (snd (hijack world_ok api_tls ''swarm:3376'' ''POST'' ''/exec/e1/start''
       True (Some In) (Some Stdout) (Some Stdout) False)) = []"
  by (simp add: handshake_ok_def hijack_def Let_def world_ok_def api_tls_def)

text \<open>
  Claim C9. When the configuration marshals, the first call of \<open>execContainer\<close> is a POST
  of the marshalled configuration, as \<open>application/json\<close>, to
  \<open>scheme://host/containers/<id>/exec\<close>; the configuration has \<open>AttachStdin\<close>,
  \<open>AttachStdout\<close>, \<open>AttachStderr\<close> and \<open>Tty\<close> set, and its command vector is the \<open>cmd\<close>
  parameter split at the commas: joined with commas it is \<open>cmd\<close> again, and no
  argument contains a comma.
\<close>
theorem execContainer_session_request:
  assumes "json_Marshal W (session_config qry) = Inr buf"
  shows "(\<exists>tr. snd (execContainer W a qry) =
            HttpPost (URL_Scheme (DockerClient a) @ ''://'' @ URL_Host (DockerClient a) @
                      ''/containers/'' @ Values_Get qry ''id'' @ ''/exec'')
              ''application/json'' (Some buf) # tr) \<and>
         AttachStdin (session_config qry) \<and> AttachStdout (session_config qry) \<and>
         AttachStderr (session_config qry) \<and> Tty (session_config qry) \<and>
         strings_Join (Cmd (session_config qry)) (CHR '','') = Values_Get qry ''cmd'' \<and>
         CHR '','' \<notin> \<Union> (set ` set (Cmd (session_config qry)))"
proof -
  have "\<exists>tr. snd (execContainer W a qry) =
            HttpPost (session_url a qry) ''application/json'' (Some buf) # tr"
    using assms unfolding execContainer_unfold
    by (auto split: sum.splits prod.splits outcome.splits option.splits)
  moreover have "CHR '','' \<notin> \<Union> (set ` set (Cmd (session_config qry)))"
    using strings_Split_no_sep by (fastforce simp: session_config_def)
  ultimately show ?thesis
    by (simp add: session_url_def session_config_def strings_Join_Split)
qed

theorem execContainer_session_request_witness:
  "(\<exists>tr. snd (execContainer world_ok api_plain qry_sh) =
      HttpPost ''http://swarm:2375/containers/abc123/exec'' ''application/json''
        (Some (encode_ExecConfig (session_config qry_sh))) # tr) \<and>
   Cmd (session_config qry_sh) = [''sh'', ''-c'', ''echo hi'']"
proof -
  have m: "json_Marshal world_ok (session_config qry_sh) =
             Inr (encode_ExecConfig (session_config qry_sh))"
    by (simp add: world_ok_def)
  have c: "Cmd (session_config qry_sh) = [''sh'', ''-c'', ''echo hi'']"
    by (simp add: session_config_def qry_sh_def Values_Get_def)
  from execContainer_session_request[OF m, of api_plain]
  have "\<exists>tr. snd (execContainer world_ok api_plain qry_sh) =
      HttpPost (URL_Scheme (DockerClient api_plain) @ ''://'' @ URL_Host (DockerClient api_plain) @
                ''/containers/'' @ Values_Get qry_sh ''id'' @ ''/exec'') ''application/json''
        (Some (encode_ExecConfig (session_config qry_sh))) # tr" by blast
  then show ?thesis using c by (simp add: api_plain_def qry_sh_def Values_Get_def)
qed

section \<open>The forwarder and the transport: proofs\<close>

text \<open>
  Claim C8. When the endpoint URL does not parse, \<open>swarmRedirect\<close> answers with
  \<open>http.Error\<close> and status 500, and the forwarder is not called.
\<close>

theorem swarmRedirect_parse_failure:
  assumes "url_ParseRequestURI W dUrl = Inl err"
  shows "swarmRedirect W dUrl f req =
           [HeaderSet ''Content-Type'' ''text/plain; charset=utf-8'', WriteHeader 500,
            Write (error_Error err @ [CHR 0x0A])] \<and>
         filter is_forward (swarmRedirect W dUrl f req) = []"
  using assms
  by (simp add: swarmRedirect_def http_Error_def http_StatusInternalServerError_def)

theorem swarmRedirect_parse_failure_witness:
  "url_ParseRequestURI world_badurl ''http://swarm:2375'' = Inl (Err ''invalid URI for request'') \<and>
   swarmRedirect world_badurl ''http://swarm:2375'' (Forwarder DefaultTransport) req_images =
     [HeaderSet ''Content-Type'' ''text/plain; charset=utf-8'', WriteHeader 500,
      Write (error_Error (Err ''invalid URI for request'') @ [CHR 0x0A])] \<and>
   filter is_forward
     (swarmRedirect world_badurl ''http://swarm:2375'' (Forwarder DefaultTransport) req_images) = []"
proof -
  have p: "url_ParseRequestURI world_badurl ''http://swarm:2375'' =
             Inl (Err ''invalid URI for request'')"
    by (simp add: world_badurl_def)
  show ?thesis
    using swarmRedirect_parse_failure[OF p, of "Forwarder DefaultTransport" req_images] p
    by blast
qed

lemma swarmRedirect_forwards:
  "filter is_forward (swarmRedirect W dUrl f req) =
     (case url_ParseRequestURI W dUrl of
        Inl err \<Rightarrow> []
      | Inr u \<Rightarrow> [FwdServeHTTP f (req\<lparr>URL := u\<rparr>)])"
  by (simp add: swarmRedirect_def http_Error_def split: sum.splits)

text \<open>
  Claim C7. \<open>Run\<close> chooses the scheme and the forwarder once, from the client's TLS
  configuration: with one, the target is \<open>https://host\<close>, the forwarder carries a
  transport with that configuration and \<open>hijack\<close> dials with \<open>tls.Dial\<close> and that
  configuration; without, the target is \<open>http://host\<close>, the forwarder is the default one
  and \<open>hijack\<close> dials plain TCP. \<open>swarmRedirect\<close> is closed over that target and that
  forwarder: whatever the request, the relay it calls is the forwarder chosen at startup,
  on the request with the parsed target.
\<close>

theorem transport_selected_at_startup:
  assumes "Run_transport W (DockerClient a) = Started t"
  shows "(case TLSConfig (DockerClient a) of
            None \<Rightarrow>
              scheme t = ''http://'' \<and> fwd t = Forwarder DefaultTransport \<and>
              filter is_dial (snd (hijack W a addr meth path raw inp stdout stderr started))
                \<in> {[], [NetDial ''tcp'' addr]}
          | Some cfg \<Rightarrow>
              scheme t = ''https://'' \<and> fwd t = Forwarder (Transport cfg) \<and>
              filter is_dial (snd (hijack W a addr meth path raw inp stdout stderr started))
                \<in> {[], [TlsDial ''tcp'' addr cfg]}) \<and>
         Run_dUrl t (DockerClient a) = scheme t @ URL_Host (DockerClient a) \<and>
         filter is_forward (swarmRedirect W (Run_dUrl t (DockerClient a)) (fwd t) req) =
           (case url_ParseRequestURI W (scheme t @ URL_Host (DockerClient a)) of
              Inl err \<Rightarrow> []
            | Inr u \<Rightarrow> [FwdServeHTTP (fwd t) (req\<lparr>URL := u\<rparr>)])"
proof (cases "TLSConfig (DockerClient a)")
  case None
  with assms have "scheme t = ''http://'' \<and> fwd t = Forwarder DefaultTransport"
    by (auto simp: Run_transport_def split: option.splits)
  with None hijack_dials[of W a addr meth path raw inp stdout stderr started] show ?thesis
    by (simp add: Run_dUrl_def swarmRedirect_forwards cong: sum.case_cong)
next
  case (Some cfg)
  with assms have "scheme t = ''https://'' \<and> fwd t = Forwarder (Transport cfg)"
    by (auto simp: Run_transport_def Let_def split: option.splits)
  with Some hijack_dials[of W a addr meth path raw inp stdout stderr started] show ?thesis
    by (simp add: Run_dUrl_def swarmRedirect_forwards cong: sum.case_cong)
qed

lemma hijack_dials_ok:
  assumes "handshake_ok W a addr meth path"
  shows "filter is_dial (snd (hijack W a addr meth path raw inp stdout stderr started)) =
           (case TLSConfig (DockerClient a) of
              None \<Rightarrow> [NetDial ''tcp'' addr]
            | Some cfg \<Rightarrow> [TlsDial ''tcp'' addr cfg])"
proof -
  obtain buf where m: "json_Marshal W (ExecConfig_zero\<lparr>Tty := True, Detach := False\<rparr>) = Inr buf"
    using assms by (rule handshake_marshals)
  show ?thesis
    by (simp add: hijack_ok_eq[OF m assms] split: option.splits)
qed

theorem transport_selected_at_startup_witness:
  "Run_transport world_ok (DockerClient api_tls) =
     Started \<lparr>scheme = ''https://'', fwd = Forwarder (Transport (TLS ''swarm-certs''))\<rparr> \<and>
   Run_dUrl \<lparr>scheme = ''https://'', fwd = Forwarder (Transport (TLS ''swarm-certs''))\<rparr>
     (DockerClient api_tls) = ''https://swarm:3376'' \<and>
   filter is_dial (snd (hijack world_ok api_tls ''swarm:3376'' ''POST'' ''/exec/e1/start'' True
       (Some In) (Some Stdout) (Some Stdout) False)) =
     [TlsDial ''tcp'' ''swarm:3376'' (TLS ''swarm-certs'')] \<and>
   filter is_forward
     (swarmRedirect world_ok ''https://swarm:3376''
        (Forwarder (Transport (TLS ''swarm-certs''))) req_images) =
     [FwdServeHTTP (Forwarder (Transport (TLS ''swarm-certs'')))
        (req_images\<lparr>URL := ''https://swarm:3376''\<rparr>)]"
proof -
  let ?t = "\<lparr>scheme = ''https://'', fwd = Forwarder (Transport (TLS ''swarm-certs''))\<rparr>"
  have r: "Run_transport world_ok (DockerClient api_tls) = Started ?t"
    by (simp add: Run_transport_def world_ok_def api_tls_def)
  have c: "TLSConfig (DockerClient api_tls) = Some (TLS ''swarm-certs'')"
    and hst: "URL_Host (DockerClient api_tls) = ''swarm:3376''"
    by (simp_all add: api_tls_def)
  have p: "url_ParseRequestURI world_ok ''https://swarm:3376'' = Inr ''https://swarm:3376''"
    by (simp add: world_ok_def)
  have d: "filter is_dial (snd (hijack world_ok api_tls ''swarm:3376'' ''POST'' ''/exec/e1/start''
       True (Some In) (Some Stdout) (Some Stdout) False)) =
     [TlsDial ''tcp'' ''swarm:3376'' (TLS ''swarm-certs'')]"
    by (simp add: hijack_dials_ok[OF handshake_world_ok_tls] c)
  have u: "Run_dUrl ?t (DockerClient api_tls) = ''https://swarm:3376''"
    by (simp add: Run_dUrl_def hst)
  from transport_selected_at_startup[OF r, of "''swarm:3376''" "''POST''" "''/exec/e1/start''" True
         "Some In" "Some Stdout" "Some Stdout" False req_images]
  have f: "filter is_forward (swarmRedirect world_ok ''https://swarm:3376''
           (Forwarder (Transport (TLS ''swarm-certs''))) req_images) =
        [FwdServeHTTP (Forwarder (Transport (TLS ''swarm-certs'')))
           (req_images\<lparr>URL := ''https://swarm:3376''\<rparr>)]"
    by (simp add: c hst p Run_dUrl_def cong: sum.case_cong)
  from r u d f show ?thesis by (intro conjI)
qed

section \<open>The swarm router: proofs\<close>

lemma swarm_m_handler: "(m, route, fct) \<in> set (swarm_m sr) \<Longrightarrow> fct = sr"
  by (auto simp: swarm_m_def)

lemma register_routes_handler:
  "\<forall>e \<in> set es. snd (snd e) = sr \<Longrightarrow> r \<in> set (register_routes a es) \<Longrightarrow>
     HandlerFunc r = wrap a sr"
  by (induction a es rule: register_routes.induct) auto

lemma register_routes_mem:
  "(m, route, fct) \<in> set es \<Longrightarrow>
     \<lparr>Path = ''/v{version:[0-9.]+}'' @ route, Methods = [m], HandlerFunc = wrap a fct\<rparr>
       \<in> set (register_routes a es) \<and>
     \<lparr>Path = route, Methods = [m], HandlerFunc = wrap a fct\<rparr> \<in> set (register_routes a es)"
  by (induction a es rule: register_routes.induct) auto

lemma Router_Match_Some:
  "Router_Match rs req = Some hf \<Longrightarrow> \<exists>r \<in> set rs. HandlerFunc r = hf \<and> Route_Match r req"
  by (induction rs) (auto split: if_splits)

lemma Router_Match_found:
  "r \<in> set rs \<Longrightarrow> Route_Match r req \<Longrightarrow> \<exists>hf. Router_Match rs req = Some hf"
  by (induction rs) auto

lemma swarm_router_handler:
  assumes "set es = set (swarm_m sr)" and "Router_Match (register_routes a es) req = Some hf"
  shows "hf = wrap a sr"
proof -
  have "\<forall>e \<in> set es. snd (snd e) = sr"
    using assms(1) swarm_m_handler by fastforce
  with Router_Match_Some[OF assms(2)] register_routes_handler show ?thesis by blast
qed

lemma parse_version_prefix:
  "parse_template (''/v{version:[0-9.]+}'' @ route) None =
     Ch CHR ''/'' # Ch CHR ''v'' # Var ''version'' VersionChar 1 # parse_template route None"
  by (simp add: mk_var_def)

lemma path_match_VarI:
  assumes "least \<le> length u" and "list_all (in_cls k) u" and "path_match ts s"
  shows "path_match (Var n k least # ts) (u @ s)"
proof -
  have "length u \<in> set [0..<Suc (length (u @ s))]" by simp
  moreover have "least \<le> length u \<and> list_all (in_cls k) (take (length u) (u @ s)) \<and>
                 path_match ts (drop (length u) (u @ s))"
    using assms by simp
  ultimately have "\<exists>i \<in> set [0..<Suc (length (u @ s))].
      least \<le> i \<and> list_all (in_cls k) (take i (u @ s)) \<and> path_match ts (drop i (u @ s))"
    by (rule bexI[rotated])
  then show ?thesis
    by (simp only: path_match.simps list_ex_iff)
qed

lemma path_match_version:
  assumes "v \<noteq> []" and "list_all (in_cls VersionChar) v" and "path_match ts p"
  shows "path_match (Ch CHR ''/'' # Ch CHR ''v'' # Var n VersionChar 1 # ts) (''/v'' @ v @ p)"
proof -
  have "1 \<le> length v" using assms(1) by (cases v) simp_all
  then have "path_match (Var n VersionChar 1 # ts) (v @ p)"
    using assms(2,3) by (rule path_match_VarI)
  then show ?thesis
    by (simp del: path_match.simps(3))
qed

text \<open>
  The swarm router alone, whatever the order in which the loop ran over the map: for an
  entry of the table and a request with the entry's method whose path matches the
  entry's pattern, the router finds a handler for the request and for the same request
  under \<open>/v<version>\<close> (a non-empty run of digits and dots), and it is the same handler,
  the closure \<open>wrap\<close> over the entry's function.
\<close>

lemma swarm_router_same_handler:
  assumes "set es = set (swarm_m sr)"
    and "(m, route, fct) \<in> set es"
    and "Method req = m"
    and "path_match (parse_template route None) (URL req)"
    and "v \<noteq> []" and "list_all (in_cls VersionChar) v"
  shows "Router_Match (register_routes a es) req = Some (wrap a fct) \<and>
         Router_Match (register_routes a es) (req\<lparr>URL := ''/v'' @ v @ URL req\<rparr>) =
           Some (wrap a fct)"
proof -
  have fct: "fct = sr" using assms(1,2) swarm_m_handler by blast
  let ?bare = "\<lparr>Path = route, Methods = [m], HandlerFunc = wrap a fct\<rparr>"
  let ?ver = "\<lparr>Path = ''/v{version:[0-9.]+}'' @ route, Methods = [m], HandlerFunc = wrap a fct\<rparr>"
  have mem: "?ver \<in> set (register_routes a es)" "?bare \<in> set (register_routes a es)"
    using register_routes_mem[OF assms(2)] by blast+
  have "Route_Match ?bare req"
    using assms(3,4) by (simp add: Route_Match_def)
  then obtain h1 where h1: "Router_Match (register_routes a es) req = Some h1"
    using Router_Match_found[OF mem(2)] by blast
  have "path_match (parse_template (''/v{version:[0-9.]+}'' @ route) None) (''/v'' @ v @ URL req)"
    unfolding parse_version_prefix by (rule path_match_version[OF assms(5,6,4)])
  then have "Route_Match ?ver (req\<lparr>URL := ''/v'' @ v @ URL req\<rparr>)"
    using assms(3)
    by (simp add: Route_Match_def del: path_match.simps parse_template.simps)
  then obtain h2 where
    h2: "Router_Match (register_routes a es) (req\<lparr>URL := ''/v'' @ v @ URL req\<rparr>) = Some h2"
    using Router_Match_found[OF mem(1)] by blast
  show ?thesis
    using h1 h2 swarm_router_handler[OF assms(1) h1] swarm_router_handler[OF assms(1) h2] fct
    by simp
qed

lemma inspect_entry:
  "(''GET'', ''/containers/{name:.*}/json'', sr) \<in> set (swarm_m sr)"
  by (simp add: swarm_m_def GET_routes_def)

lemma inspect_matches:
  "path_match (parse_template ''/containers/{name:.*}/json'' None) (URL req_inspect)"
  by (simp add: req_inspect_def mk_var_def in_cls_def)

lemma cors_headers_after:
  "map_of (headers_after (writeCorsHeaders @ swarmRedirect W dUrl f req) [])
     ''Access-Control-Allow-Origin'' = Some [''*''] \<and>
   map_of (headers_after (writeCorsHeaders @ swarmRedirect W dUrl f req) [])
     ''Access-Control-Allow-Headers'' = Some [''Origin, X-Requested-With, Content-Type, Accept''] \<and>
   map_of (headers_after (writeCorsHeaders @ swarmRedirect W dUrl f req) [])
     ''Access-Control-Allow-Methods'' = Some [''GET, POST, DELETE, PUT, OPTIONS'']"
  by (cases "url_ParseRequestURI W dUrl")
     (simp_all add: writeCorsHeaders_def swarmRedirect_def http_Error_def)

text \<open>
  Claim C6. Whatever the order of registration, the handler the swarm router finds for
  a request is \<open>wrap\<close> over \<open>swarmRedirect\<close>. With CORS enabled its calls start with the
  three \<open>Header().Add\<close> of \<open>writeCorsHeaders\<close>, followed by the calls of \<open>swarmRedirect\<close>,
  and the three headers are in the response headers the gateway wrote, each with its
  one value. With CORS disabled the calls are those of \<open>swarmRedirect\<close> alone.
\<close>

theorem cors_headers_before_forwarder:
  assumes "set es = set (swarm_m (swarmRedirect W dUrl f))"
    and "Router_Match (register_routes a es) req = Some hf"
  shows "hf req = (if enableCors a then writeCorsHeaders else []) @ swarmRedirect W dUrl f req \<and>
         (enableCors a \<longrightarrow>
            map_of (headers_after (hf req) []) ''Access-Control-Allow-Origin'' = Some [''*''] \<and>
            map_of (headers_after (hf req) []) ''Access-Control-Allow-Headers'' =
              Some [''Origin, X-Requested-With, Content-Type, Accept''] \<and>
            map_of (headers_after (hf req) []) ''Access-Control-Allow-Methods'' =
              Some [''GET, POST, DELETE, PUT, OPTIONS'']) \<and>
         (\<not> enableCors a \<longrightarrow> hf req = swarmRedirect W dUrl f req)"
proof -
  have hf: "hf = wrap a (swarmRedirect W dUrl f)"
    using assms by (rule swarm_router_handler)
  show ?thesis
    using cors_headers_after[of W dUrl f req] by (simp add: hf wrap_def)
qed

lemma images_routed:
  "Router_Match
     (register_routes api_plain
        (swarm_m (swarmRedirect world_ok ''http://swarm:2375'' (Forwarder DefaultTransport))))
     req_images =
   Some (wrap api_plain (swarmRedirect world_ok ''http://swarm:2375'' (Forwarder DefaultTransport)))"
  by (simp add: swarm_m_def GET_routes_def POST_routes_def DELETE_routes_def OPTIONS_routes_def
        Route_Match_def req_images_def mk_var_def in_cls_def)

theorem cors_headers_before_forwarder_witness:
  "enableCors api_plain \<and>
   wrap api_plain (swarmRedirect world_ok ''http://swarm:2375'' (Forwarder DefaultTransport))
     req_images =
     writeCorsHeaders @
     swarmRedirect world_ok ''http://swarm:2375'' (Forwarder DefaultTransport) req_images \<and>
   map_of (headers_after
      (wrap api_plain (swarmRedirect world_ok ''http://swarm:2375'' (Forwarder DefaultTransport))
         req_images) [])
     ''Access-Control-Allow-Origin'' = Some [''*'']"
proof -
  have c: "enableCors api_plain" by (simp add: api_plain_def)
  note t = cors_headers_before_forwarder[OF refl images_routed]
  from t c have a:
    "wrap api_plain (swarmRedirect world_ok ''http://swarm:2375'' (Forwarder DefaultTransport))
       req_images =
     writeCorsHeaders @
     swarmRedirect world_ok ''http://swarm:2375'' (Forwarder DefaultTransport) req_images"
    by simp
  from t c have b:
    "map_of (headers_after
       (wrap api_plain (swarmRedirect world_ok ''http://swarm:2375'' (Forwarder DefaultTransport))
          req_images) [])
      ''Access-Control-Allow-Origin'' = Some [''*'']"
    by blast
  from c a b show ?thesis by (intro conjI)
qed

section \<open>The top-level mux: proofs\<close>

lemma globalMux_eq:
  "globalMux =
     [(''/'', \<lparr>explicit = True, h = FileServer, pattern = ''/''\<rparr>),
      ([], \<lparr>explicit = False, h = RedirectHandler ''/'', pattern = ''/''\<rparr>),
      (''/api/'', \<lparr>explicit = True, h = apiAuthRouter, pattern = ''/api/''\<rparr>),
      (''/api'', \<lparr>explicit = False, h = RedirectHandler ''/api/'', pattern = ''/api/''\<rparr>),
      (''/account/'', \<lparr>explicit = True, h = accountAuthRouter, pattern = ''/account/''\<rparr>),
      (''/account'',
       \<lparr>explicit = False, h = RedirectHandler ''/account/'', pattern = ''/account/''\<rparr>),
      (''/auth/'', \<lparr>explicit = True, h = loginRouter, pattern = ''/auth/''\<rparr>),
      (''/auth'', \<lparr>explicit = False, h = RedirectHandler ''/auth/'', pattern = ''/auth/''\<rparr>),
      (''/hub/'', \<lparr>explicit = True, h = hubRouter, pattern = ''/hub/''\<rparr>),
      (''/hub'', \<lparr>explicit = False, h = RedirectHandler ''/hub/'', pattern = ''/hub/''\<rparr>),
      (''/containers/'', \<lparr>explicit = True, h = swarmAuthRouter, pattern = ''/containers/''\<rparr>),
      (''/containers'',
       \<lparr>explicit = False, h = RedirectHandler ''/containers/'', pattern = ''/containers/''\<rparr>),
      (''/_ping'', \<lparr>explicit = True, h = swarmAuthRouter, pattern = ''/_ping''\<rparr>),
      (''/commit'', \<lparr>explicit = True, h = swarmAuthRouter, pattern = ''/commit''\<rparr>),
      (''/build'', \<lparr>explicit = True, h = swarmAuthRouter, pattern = ''/build''\<rparr>),
      (''/events'', \<lparr>explicit = True, h = swarmAuthRouter, pattern = ''/events''\<rparr>),
      (''/version'', \<lparr>explicit = True, h = swarmAuthRouter, pattern = ''/version''\<rparr>),
      (''/images/'', \<lparr>explicit = True, h = swarmAuthRouter, pattern = ''/images/''\<rparr>),
      (''/images'',
       \<lparr>explicit = False, h = RedirectHandler ''/images/'', pattern = ''/images/''\<rparr>),
      (''/exec/'', \<lparr>explicit = True, h = swarmAuthRouter, pattern = ''/exec/''\<rparr>),
      (''/exec'', \<lparr>explicit = False, h = RedirectHandler ''/exec/'', pattern = ''/exec/''\<rparr>),
      (''/v1.17/'', \<lparr>explicit = True, h = swarmAuthRouter, pattern = ''/v1.17/''\<rparr>),
      (''/v1.17'',
       \<lparr>explicit = False, h = RedirectHandler ''/v1.17/'', pattern = ''/v1.17/''\<rparr>),
      (''/v1.18/'', \<lparr>explicit = True, h = swarmAuthRouter, pattern = ''/v1.18/''\<rparr>),
      (''/v1.18'',
       \<lparr>explicit = False, h = RedirectHandler ''/v1.18/'', pattern = ''/v1.18/''\<rparr>)]"
  by code_simp

lemma version_chars_no_slash:
  "list_all (in_cls VersionChar) v \<Longrightarrow> \<forall>c \<in> set v. c \<noteq> CHR ''/''"
  by (auto simp: list_all_iff in_cls_def)

lemma version_takeWhile:
  assumes "list_all (in_cls VersionChar) v" and "rest = [] \<or> hd rest = CHR ''/''"
  shows "takeWhile (\<lambda>c. c \<noteq> CHR ''/'') (v @ rest) = v"
proof -
  have "takeWhile (\<lambda>c. c \<noteq> CHR ''/'') rest = []"
    using assms(2) by (cases rest) auto
  with version_chars_no_slash[OF assms(1)] show ?thesis
    by simp
qed

lemma version_exact:
  assumes "list_all (in_cls VersionChar) v" and "rest = [] \<or> hd rest = CHR ''/''"
    and "v @ rest = s" and "CHR ''/'' \<notin> set s"
  shows "v = s"
proof -
  have "takeWhile (\<lambda>c. c \<noteq> CHR ''/'') s = s"
    using assms(4) by (auto simp: takeWhile_eq_all_conv)
  with version_takeWhile[OF assms(1,2)] assms(3) show ?thesis by simp
qed

lemma version_prefix:
  assumes "list_all (in_cls VersionChar) v" and "rest = [] \<or> hd rest = CHR ''/''"
    and "v @ rest = s @ CHR ''/'' # t" and "CHR ''/'' \<notin> set s"
  shows "v = s"
proof -
  have "\<forall>c \<in> set s. c \<noteq> CHR ''/''"
    using assms(4) by auto
  then have "takeWhile (\<lambda>c. c \<noteq> CHR ''/'') (s @ CHR ''/'' # t) = s"
    by simp
  with version_takeWhile[OF assms(1,2)] assms(3) show ?thesis by simp
qed


lemma pathMatch_other_version:
  assumes "v \<noteq> []" and "list_all (in_cls VersionChar) v"
    and "rest = [] \<or> hd rest = CHR ''/''"
    and "v \<noteq> ''1.17''" and "v \<noteq> ''1.18''"
    and "(k, e) \<in> set globalMux" and "pathMatch k (''/v'' @ v @ rest)"
  shows "k = ''/''"
proof -
  have e: "hd v \<noteq> CHR ''e''"
    using assms(1,2) by (cases v) (auto simp: in_cls_def)
  have x: "v @ rest \<noteq> s" if "CHR ''/'' \<notin> set s" "v \<noteq> s" for s
    using version_exact[OF assms(2,3)] that by blast
  have p: "take (Suc (length s)) (v @ rest) \<noteq> s @ ''/''" if "CHR ''/'' \<notin> set s" "v \<noteq> s" for s
  proof
    assume t: "take (Suc (length s)) (v @ rest) = s @ ''/''"
    then have "Suc (length s) \<le> length (v @ rest)"
      by (metis length_append_singleton length_take min.cobounded1 min_def not_less_eq_eq)
    with t have "v @ rest = s @ CHR ''/'' # drop (Suc (length s)) (v @ rest)"
      by (metis append_Cons append_Nil append_assoc append_take_drop_id)
    from version_prefix[OF assms(2,3) this that(1)] that(2) show False by simp
  qed
  have v17: "v @ rest \<noteq> ''1.17''" "v @ rest \<noteq> ''1.18''"
    using x[of "''1.17''"] x[of "''1.18''"] assms(4,5) by simp_all
  have p17: "take (Suc (length ''1.17'')) (v @ rest) \<noteq> ''1.17'' @ ''/''"
    "take (Suc (length ''1.18'')) (v @ rest) \<noteq> ''1.18'' @ ''/''"
    by (rule p, simp, rule assms(4), rule p, simp, rule assms(5))
  have ver: "v @ rest \<noteq> ''ersion''"
    using e assms(1) by (cases v) auto
  show ?thesis
    using assms(6,7) v17 p17 ver
    unfolding globalMux_eq
    by (auto simp: pathMatch_def)
qed

lemma ServeMux_match_result:
  "ServeMux_match m p best = Some (hh, n) \<Longrightarrow>
     best = Some (hh, n) \<or> (\<exists>(k, e) \<in> set m. pathMatch k p \<and> h e = hh)"
proof (induction m arbitrary: best)
  case Nil
  then show ?case by simp
next
  case (Cons x m)
  obtain k e where x: "x = (k, e)" by (cases x)
  show ?case
    using Cons.IH[of "Some (h e, length k)"] Cons.IH[of best] Cons.prems
    by (auto simp: x split: if_splits option.splits prod.splits)
qed

lemma ServeMux_match_keeps: "best \<noteq> None \<Longrightarrow> ServeMux_match m p best \<noteq> None"
proof (induction m arbitrary: best)
  case Nil
  then show ?case by simp
next
  case (Cons x m)
  obtain k e where x: "x = (k, e)" by (cases x)
  show ?case
    using Cons.IH[of "Some (h e, length k)"] Cons.IH[of best] Cons.prems
    by (auto simp: x split: if_splits option.splits prod.splits)
qed

lemma ServeMux_match_finds:
  "(k, e) \<in> set m \<Longrightarrow> pathMatch k p \<Longrightarrow> ServeMux_match m p best \<noteq> None"
proof (induction m arbitrary: best)
  case Nil
  then show ?case by simp
next
  case (Cons x m)
  obtain k' e' where x: "x = (k', e')" by (cases x)
  show ?case
  proof (cases "pathMatch k' p")
    case True
    then show ?thesis
      using ServeMux_match_keeps[of "Some (h e', length k')" m p]
        ServeMux_match_keeps[of best m p]
      by (auto simp: x split: option.splits prod.splits)
  next
    case False
    with Cons.prems have "(k, e) \<in> set m" by (auto simp: x)
    from Cons.IH[OF this Cons.prems(2)] False show ?thesis by (simp add: x)
  qed
qed

lemma other_version_handler:
  assumes "v \<noteq> []" and "list_all (in_cls VersionChar) v"
    and "rest = [] \<or> hd rest = CHR ''/''"
    and "v \<noteq> ''1.17''" and "v \<noteq> ''1.18''"
  shows "ServeMux_handler globalMux (''/v'' @ v @ rest) = FileServer"
proof -
  let ?p = "''/v'' @ v @ rest"
  have "(''/'', \<lparr>explicit = True, h = FileServer, pattern = ''/''\<rparr>) \<in> set globalMux"
    by (simp add: globalMux_eq)
  moreover have "pathMatch ''/'' ?p" by (simp add: pathMatch_def)
  ultimately have "ServeMux_match globalMux ?p None \<noteq> None"
    by (rule ServeMux_match_finds)
  then obtain hh n where m: "ServeMux_match globalMux ?p None = Some (hh, n)" by auto
  from ServeMux_match_result[OF m] obtain k e where
    ke: "(k, e) \<in> set globalMux" "pathMatch k ?p" "h e = hh" by auto
  have "k = ''/''"
    using assms ke(1,2) by (rule pathMatch_other_version)
  with ke(1) have "h e = FileServer"
    by (auto simp: globalMux_eq)
  with m ke(3) show ?thesis by (simp add: ServeMux_handler_def)
qed

lemma swarm_mounts:
  "map fst (filter (\<lambda>(k, e). h e = swarmAuthRouter) globalMux) =
     [''/containers/'', ''/_ping'', ''/commit'', ''/build'', ''/events'', ''/version'',
      ''/images/'', ''/exec/'', ''/v1.17/'', ''/v1.18/'']"
  by (simp add: globalMux_eq)

lemma mounted_version_handler:
  assumes "v = ''1.17'' \<or> v = ''1.18''" and "rest \<noteq> []" and "hd rest = CHR ''/''"
  shows "ServeMux_handler globalMux (''/v'' @ v @ rest) = swarmAuthRouter"
proof -
  obtain t where rest: "rest = CHR ''/'' # t"
    using assms(2,3) by (cases rest) auto
  from assms(1) show ?thesis
  proof
    assume "v = ''1.17''"
    then show ?thesis
      by (simp add: rest globalMux_eq ServeMux_handler_def pathMatch_def)
  next
    assume "v = ''1.18''"
    then show ?thesis
      by (simp add: rest globalMux_eq ServeMux_handler_def pathMatch_def)
  qed
qed

lemma parse_template_slash:
  "route = [] \<or> hd route = CHR ''/'' \<Longrightarrow> path_match (parse_template route None) p \<Longrightarrow>
     p = [] \<or> hd p = CHR ''/''"
  by (cases route; cases p) (auto split: if_splits)

lemma swarm_m_routes_slash:
  "(m, route, fct) \<in> set (swarm_m sr) \<Longrightarrow> route = [] \<or> hd route = CHR ''/''"
  by (auto simp: swarm_m_def GET_routes_def POST_routes_def DELETE_routes_def OPTIONS_routes_def)

text \<open>
  Claim C4, as amended. For an entry of the table and a request with the entry's method
  whose path matches the entry's pattern, the swarm router finds the same handler, the
  closure \<open>wrap\<close> over the entry's function, for the request and for the same request
  under \<open>/v<version>\<close>, for every non-empty run of digits and dots as version and
  whatever the order of registration. The top-level mux, for a clean path, hands the
  version-prefixed request to that router exactly when the version is \<open>1.17\<close> or
  \<open>1.18\<close>; under any other version it goes to the file server.
\<close>

theorem bare_and_versioned_dispatch:
  assumes "set es = set (swarm_m sr)"
    and "(m, route, fct) \<in> set es"
    and "Method req = m"
    and "path_match (parse_template route None) (URL req)"
    and "v \<noteq> []" and "list_all (in_cls VersionChar) v"
  shows "Router_Match (register_routes a es) req = Some (wrap a fct) \<and>
         Router_Match (register_routes a es) (req\<lparr>URL := ''/v'' @ v @ URL req\<rparr>) =
           Some (wrap a fct) \<and>
         (URL req \<noteq> [] \<longrightarrow>
            (ServeMux_handler globalMux (''/v'' @ v @ URL req) = swarmAuthRouter) =
            (v = ''1.17'' \<or> v = ''1.18'')) \<and>
         (v \<noteq> ''1.17'' \<and> v \<noteq> ''1.18'' \<longrightarrow>
            ServeMux_handler globalMux (''/v'' @ v @ URL req) = FileServer)"
proof -
  have r: "route = [] \<or> hd route = CHR ''/''"
    using assms(1,2) swarm_m_routes_slash by blast
  have p: "URL req = [] \<or> hd (URL req) = CHR ''/''"
    using r assms(4) by (rule parse_template_slash)
  have other: "ServeMux_handler globalMux (''/v'' @ v @ URL req) = FileServer"
    if "v \<noteq> ''1.17''" "v \<noteq> ''1.18''"
    using assms(5,6) p that by (rule other_version_handler)
  have mounted: "ServeMux_handler globalMux (''/v'' @ v @ URL req) = swarmAuthRouter"
    if "v = ''1.17'' \<or> v = ''1.18''" "URL req \<noteq> []"
    using that p by (intro mounted_version_handler) auto
  from swarm_router_same_handler[OF assms] other mounted show ?thesis
    by (cases "v = ''1.17'' \<or> v = ''1.18''") auto
qed

lemma inspect_request:
  "Method req_inspect = ''GET''" "URL req_inspect = ''/containers/abc123/json''"
  by (simp_all add: req_inspect_def)

theorem bare_and_versioned_dispatch_witness:
  "path_match (parse_template ''/containers/{name:.*}/json'' None) (URL req_inspect) \<and>
   Router_Match
     (register_routes api_plain
        (swarm_m (swarmRedirect world_ok ''http://swarm:2375'' (Forwarder DefaultTransport))))
     req_inspect =
     Some (wrap api_plain
             (swarmRedirect world_ok ''http://swarm:2375'' (Forwarder DefaultTransport))) \<and>
   Router_Match
     (register_routes api_plain
        (swarm_m (swarmRedirect world_ok ''http://swarm:2375'' (Forwarder DefaultTransport))))
     (req_inspect\<lparr>URL := ''/v'' @ ''1.17'' @ URL req_inspect\<rparr>) =
     Some (wrap api_plain
             (swarmRedirect world_ok ''http://swarm:2375'' (Forwarder DefaultTransport))) \<and>
   ServeMux_handler globalMux (''/v'' @ ''1.17'' @ URL req_inspect) = swarmAuthRouter"
proof -
  have v: "''1.17'' \<noteq> []" "list_all (in_cls VersionChar) ''1.17''"
    by (simp_all add: in_cls_def)
  have u: "URL req_inspect \<noteq> []" by (simp add: inspect_request)
  show ?thesis
    using bare_and_versioned_dispatch[OF refl inspect_entry inspect_request(1) inspect_matches v]
      inspect_matches u
    by blast
qed

text \<open>
  Against claim C4 as stated: the table has the entry \<open>GET /containers/{name:.*}/json\<close>;
  the request for \<open>/containers/abc123/json\<close> matches its bare path and is dispatched to
  the swarm router, the request for \<open>/v1.19/containers/abc123/json\<close> matches its
  version-prefixed alias and is dispatched to the file server.
\<close>

theorem version_alias_dispatched_elsewhere:
  "(''GET'', ''/containers/{name:.*}/json'',
      swarmRedirect world_ok ''http://swarm:2375'' (Forwarder DefaultTransport))
     \<in> set (swarm_m (swarmRedirect world_ok ''http://swarm:2375'' (Forwarder DefaultTransport))) \<and>
   Method req_inspect = ''GET'' \<and>
   path_match (parse_template ''/containers/{name:.*}/json'' None) (URL req_inspect) \<and>
   path_match (parse_template (''/v{version:[0-9.]+}'' @ ''/containers/{name:.*}/json'') None)
     (''/v'' @ ''1.19'' @ URL req_inspect) \<and>
   ServeMux_Handler world_ok globalMux ''GET'' (URL req_inspect) = swarmAuthRouter \<and>
   ServeMux_Handler world_ok globalMux ''GET'' (''/v'' @ ''1.19'' @ URL req_inspect) = FileServer"
proof -
  have v: "''1.19'' \<noteq> []" "list_all (in_cls VersionChar) ''1.19''"
    by (simp_all add: in_cls_def)
  have a: "path_match
             (parse_template (''/v{version:[0-9.]+}'' @ ''/containers/{name:.*}/json'') None)
             (''/v'' @ ''1.19'' @ URL req_inspect)"
    unfolding parse_version_prefix by (rule path_match_version[OF v inspect_matches])
  have b: "ServeMux_Handler world_ok globalMux ''GET'' (URL req_inspect) = swarmAuthRouter"
    by (simp add: inspect_request ServeMux_Handler_def ServeMux_handler_def world_ok_def
          globalMux_eq pathMatch_def)
  have c: "ServeMux_Handler world_ok globalMux ''GET'' (''/v'' @ ''1.19'' @ URL req_inspect) =
             FileServer"
    by (simp add: inspect_request ServeMux_Handler_def ServeMux_handler_def world_ok_def
          globalMux_eq pathMatch_def)
  from inspect_entry inspect_request(1) inspect_matches a b c show ?thesis
    by (intro conjI)
qed

text \<open>
  Claim C10. The patterns the top-level mux hands to the swarm router are the bare ones
  and \<open>/v1.17/\<close> and \<open>/v1.18/\<close>. A request for \<open>/v<version>\<close> followed by nothing or by
  a path, where the version is a non-empty run of digits and dots other than \<open>1.17\<close> and
  \<open>1.18\<close>, matches the pattern \<open>/\<close> only: it goes to the file server (or is answered by
  the redirect to its clean path), never to the swarm router, although the router has a
  route for every such version.
\<close>

theorem other_versions_not_mounted:
  assumes "v \<noteq> []" and "list_all (in_cls VersionChar) v"
    and "rest = [] \<or> hd rest = CHR ''/''"
    and "v \<noteq> ''1.17''" and "v \<noteq> ''1.18''"
  shows "ServeMux_handler globalMux (''/v'' @ v @ rest) = FileServer \<and>
         ServeMux_Handler W globalMux meth (''/v'' @ v @ rest) \<noteq> swarmAuthRouter \<and>
         map fst (filter (\<lambda>(k, e). h e = swarmAuthRouter) globalMux) =
           [''/containers/'', ''/_ping'', ''/commit'', ''/build'', ''/events'', ''/version'',
            ''/images/'', ''/exec/'', ''/v1.17/'', ''/v1.18/'']"
  using other_version_handler[OF assms] swarm_mounts
  by (simp add: ServeMux_Handler_def)

theorem other_versions_not_mounted_witness:
  "ServeMux_handler globalMux ''/v1.19/info'' = FileServer \<and>
   ServeMux_Handler world_ok globalMux ''GET'' ''/v1.19/info'' \<noteq> swarmAuthRouter \<and>
   path_match (parse_template (''/v{version:[0-9.]+}'' @ ''/info'') None) ''/v1.19/info''"
proof -
  have a: "''1.19'' \<noteq> []" "list_all (in_cls VersionChar) ''1.19''"
    "''/info'' = [] \<or> hd ''/info'' = CHR ''/''" "''1.19'' \<noteq> ''1.17''" "''1.19'' \<noteq> ''1.18''"
    by (simp_all add: in_cls_def)
  have r: "path_match (parse_template (''/v{version:[0-9.]+}'' @ ''/info'') None) ''/v1.19/info''"
    by (simp add: mk_var_def in_cls_def)
  from other_versions_not_mounted[OF a, of world_ok "''GET''"]
  have "ServeMux_handler globalMux ''/v1.19/info'' = FileServer \<and>
        ServeMux_Handler world_ok globalMux ''GET'' ''/v1.19/info'' \<noteq> swarmAuthRouter"
    by simp
  with r show ?thesis by simp
qed

section \<open>Further properties\<close>

text \<open>
  The one path on which \<open>hijack\<close> returns after the connection was hijacked: without an
  output and an error stream it does not wait, returns nil, and the deferred calls run,
  \<open>rwc.Close()\<close> first and once, then \<open>clientconn.Close()\<close>.
\<close>

theorem hijack_without_output_closes_once:
  assumes "handshake_ok W a addr meth path" and "stdout = None" and "stderr = None"
  shows "fst (hijack W a addr meth path raw inp stdout stderr started) = Returns None \<and>
         (\<exists>pre. snd (hijack W a addr meth path raw inp stdout stderr started) =
                  pre @ [RwcClose, ClientConnClose] \<and>
                RwcClose \<notin> set pre \<and> ClientConnClose \<notin> set pre)"
proof -
  obtain buf where m: "json_Marshal W (ExecConfig_zero\<lparr>Tty := True, Detach := False\<rparr>) = Inr buf"
    using assms(1) by (rule handshake_marshals)
  show ?thesis
    unfolding hijack_ok_eq[OF m assms(1)] using assms(2,3)
    by (cases "TLSConfig (DockerClient a)") (simp_all add: append_eq_append_conv2)
qed

theorem hijack_without_output_closes_once_witness:
  "handshake_ok world_ok api_plain ''swarm:2375'' ''POST'' ''/exec/e1/start'' \<and>
   fst (hijack world_ok api_plain ''swarm:2375'' ''POST'' ''/exec/e1/start'' True
          (Some In) None None False) = Returns None \<and>
   (\<exists>pre. snd (hijack world_ok api_plain ''swarm:2375'' ''POST'' ''/exec/e1/start'' True
                 (Some In) None None False) = pre @ [RwcClose, ClientConnClose] \<and>
          RwcClose \<notin> set pre \<and> ClientConnClose \<notin> set pre)"
  using hijack_without_output_closes_once[OF handshake_world_ok_plain refl refl]
    handshake_world_ok_plain
  by blast

text \<open>
  The top-level mux has no pattern for the table's bare routes \<open>/info\<close> and \<open>/auth\<close>:
  a request for \<open>/info\<close> goes to the file server and one for \<open>/auth\<close> is redirected to
  the login router's \<open>/auth/\<close>, while \<open>/v1.17/info\<close> and \<open>/v1.17/auth\<close> reach the swarm
  router.
\<close>

theorem bare_info_and_auth_not_mounted:
  "(''GET'', ''/info'', sr) \<in> set (swarm_m sr) \<and>
   (''POST'', ''/auth'', sr) \<in> set (swarm_m sr) \<and>
   ServeMux_handler globalMux ''/info'' = FileServer \<and>
   ServeMux_handler globalMux ''/auth'' = RedirectHandler ''/auth/'' \<and>
   ServeMux_handler globalMux ''/v1.17/info'' = swarmAuthRouter \<and>
   ServeMux_handler globalMux ''/v1.17/auth'' = swarmAuthRouter"
  by (simp add: swarm_m_def GET_routes_def POST_routes_def globalMux_eq ServeMux_handler_def
        pathMatch_def)

end
